theory Spec2Isabelle
  imports Complex_Main "HOL-Library.Word" "HOL-Library.Finite_Map"
begin

unbundle bit_operations_syntax

section \<open>The audio library of app.py\<close>

text \<open>
  The embedding follows \<^verbatim>\<open>src/app.py\<close>: the module constants, \<^verbatim>\<open>load_config\<close>, and
  the five request handlers \<^verbatim>\<open>transcribe\<close>, \<^verbatim>\<open>library\<close>, \<^verbatim>\<open>audio_data\<close>,
  \<^verbatim>\<open>delete_audio\<close> and \<^verbatim>\<open>get_audio\<close>. The two SQLite tables are lists of rows in
  rowid order (a new row is appended), the uploads directory is a map from paths to file
  contents, and every exception the handlers can end in is a value of \<open>exn\<close>.
\<close>

subsection \<open>Constants, exceptions and Python values\<close>

definition UPLOAD_DIR :: string where
  "UPLOAD_DIR = ''uploads''"

definition DB_PATH :: string where
  "DB_PATH = ''app.db''"

datatype exn = TypeError | KeyError | IntegrityError | OSError | CollaboratorError

text \<open>
  The value \<^verbatim>\<open>json.load\<close> returns: a JSON object is a Python dict, here a finite map.
\<close>

datatype json =
    JNull
  | JBool bool
  | JNum real
  | JStr string
  | JList "json list"
  | JDict "(string, json) fmap"

subsection \<open>load_config\<close>

text \<open>
  The configuration file is either absent (\<open>None\<close>) or present. A present file holds a
  JSON document (\<open>Parsed j\<close>: the value \<^verbatim>\<open>json.load\<close> returns for it) or text on which
  \<^verbatim>\<open>json.load\<close> raises (\<open>Unparsable\<close>). \<^verbatim>\<open>json.dump(d, f)\<close> leaves the file at
  \<open>Parsed (JDict d)\<close>.
\<close>

datatype file_content = Unparsable | Parsed json

definition default_config :: "(string, json) fmap" where
  "default_config = fmap_of_list
     [(''language'', JStr ''ja''), (''model_size'', JStr ''base''), (''device'', JStr ''cpu'')]"

text \<open>
  \<^verbatim>\<open>{**default_config, **config}\<close> raises TypeError unless \<^verbatim>\<open>config\<close> is a mapping; of
  the values of \<open>json\<close> only a dict is one.
\<close>

fun dict_merge :: "(string, json) fmap \<Rightarrow> json \<Rightarrow> exn + (string, json) fmap" where
  "dict_merge d (JDict c) = Inr (d ++\<^sub>f c)"
| "dict_merge d _ = Inl TypeError"

text \<open>
  \<^verbatim>\<open>load_config\<close> returns the configuration and leaves the configuration file in a new
  state. Every exception under \<^verbatim>\<open>try\<close> is caught by \<^verbatim>\<open>except Exception\<close> and control
  falls through to \<^verbatim>\<open>return default_config\<close>. Creating the missing file is taken to
  succeed.
\<close>

definition load_config :: "file_content option \<Rightarrow> (string, json) fmap \<times> file_content option" where
  "load_config cfg_file =
     (case cfg_file of
        Some content \<Rightarrow>
          (case content of
             Unparsable \<Rightarrow> (default_config, cfg_file)
           | Parsed j \<Rightarrow>
               (case dict_merge default_config j of
                  Inr merged \<Rightarrow> (merged, cfg_file)
                | Inl _ \<Rightarrow> (default_config, cfg_file)))
      | None \<Rightarrow> (default_config, Some (Parsed (JDict default_config))))"

text \<open>The keys a present configuration file supplies: those of its top-level JSON object.\<close>

fun file_keys :: "file_content \<Rightarrow> (string, json) fmap" where
  "file_keys (Parsed (JDict c)) = c"
| "file_keys _ = fmempty"


subsection \<open>Identifiers and paths\<close>

text \<open>
  \<^verbatim>\<open>str(uuid.uuid4())\<close>: the 128-bit value of the generated UUID, chosen by the
  environment, is printed as 32 lower-case hexadecimal digits (\<^verbatim>\<open>'%032x'\<close>), most
  significant first, in groups of 8, 4, 4, 4 and 12 joined by hyphens.
\<close>

definition hex_digit :: "nat \<Rightarrow> char" where
  "hex_digit n = ''0123456789abcdef'' ! (n mod 16)"

definition hex32 :: "128 word \<Rightarrow> string" where
  "hex32 u = map (\<lambda>i. hex_digit (unat (drop_bit (4 * i) u AND 15))) (rev [0..<32])"

definition uuid_str :: "128 word \<Rightarrow> string" where
  "uuid_str u =
     (let h = hex32 u
      in take 8 h @ ''-'' @ take 4 (drop 8 h) @ ''-'' @ take 4 (drop 12 h) @ ''-''
         @ take 4 (drop 16 h) @ ''-'' @ drop 20 h)"

text \<open>
  \<^verbatim>\<open>os.path.join(a, b)\<close> with two arguments (posixpath): an absolute \<open>b\<close> replaces
  \<open>a\<close>; otherwise \<open>b\<close> is appended, after a separator unless \<open>a\<close> is empty or ends
  with one.
\<close>

definition startswith_sep :: "string \<Rightarrow> bool" where
  "startswith_sep b = (case b of [] \<Rightarrow> False | c # _ \<Rightarrow> c = CHR ''/'')"

definition endswith_sep :: "string \<Rightarrow> bool" where
  "endswith_sep a = (case rev a of [] \<Rightarrow> False | c # _ \<Rightarrow> c = CHR ''/'')"

definition path_join :: "string \<Rightarrow> string \<Rightarrow> string" where
  "path_join a b =
     (if startswith_sep b then b
      else if a = [] \<or> endswith_sep a then a @ b
      else a @ ''/'' @ b)"

text \<open>
  How a path is resolved, after \<^verbatim>\<open>posixpath.normpath\<close>: the path is split at the
  separators; empty components and \<^verbatim>\<open>.\<close> are dropped; \<^verbatim>\<open>..\<close> removes the component
  before it, and is kept when a relative path has none left to remove. The components
  are accumulated in reverse.
\<close>

fun split_sep :: "string \<Rightarrow> string list" where
  "split_sep [] = [[]]"
| "split_sep (c # cs) =
     (if c = CHR ''/'' then [] # split_sep cs
      else (case split_sep cs of [] \<Rightarrow> [[c]] | x # xs \<Rightarrow> (c # x) # xs))"

fun norm_comps :: "bool \<Rightarrow> string list \<Rightarrow> string list \<Rightarrow> string list" where
  "norm_comps initial_slash new_comps [] = rev new_comps"
| "norm_comps initial_slash new_comps (part # parts) =
     (if part = [] \<or> part = ''.'' then norm_comps initial_slash new_comps parts
      else if part \<noteq> ''..'' \<or> (\<not> initial_slash \<and> new_comps = [])
              \<or> (new_comps \<noteq> [] \<and> hd new_comps = ''..'')
      then norm_comps initial_slash (part # new_comps) parts
      else norm_comps initial_slash (tl new_comps) parts)"

definition normpath :: "string \<Rightarrow> string list" where
  "normpath p = norm_comps (startswith_sep p) [] (split_sep p)"

text \<open>
  A path lies in the uploads directory when it is relative, as \<open>UPLOAD_DIR\<close> is, and its
  resolved components start with \<open>UPLOAD_DIR\<close>.
\<close>

definition inside_upload_dir :: "string \<Rightarrow> bool" where
  "inside_upload_dir p =
     (\<not> startswith_sep p \<and> (case normpath p of [] \<Rightarrow> False | c # _ \<Rightarrow> c = UPLOAD_DIR))"

subsection \<open>Store, file system and environment\<close>

text \<open>
  A row of \<^verbatim>\<open>audio(id, filename, original_name)\<close> and a row of
  \<^verbatim>\<open>segments(audio_id, start, end, text)\<close>, as the tuples the cursor yields; a segment
  as the triple of its \<^verbatim>\<open>start\<close>, \<^verbatim>\<open>end\<close> and \<^verbatim>\<open>text\<close>. The times are stored and
  returned unchanged; they are numbers ordered as the reals are.
\<close>

type_synonym audio_row = "string \<times> string \<times> string"
type_synonym segment = "real \<times> real \<times> string"
type_synonym segment_row = "string \<times> real \<times> real \<times> string"

text \<open>
  A segment of the collaborator's result is a dict, of which the handler reads the
  entries \<^verbatim>\<open>s['start']\<close>, \<^verbatim>\<open>s['end']\<close> and \<^verbatim>\<open>s['text']\<close>: each is there or missing
  (None), and reading a missing one raises KeyError. The result itself is a dict of which
  the handler reads \<^verbatim>\<open>result['segments']\<close>, there or missing likewise. Entries that are
  there are taken to be two numbers and a string, as the collaborator makes them.
\<close>

type_synonym segment_dict = "real option \<times> real option \<times> string option"
type_synonym result_dict = "segment_dict list option"

text \<open>The dict of a segment that has all three entries.\<close>

definition as_dict :: "segment \<Rightarrow> segment_dict" where
  "as_dict seg = (case seg of (st, en, tx) \<Rightarrow> (Some st, Some en, Some tx))"

record state =
  audio :: "audio_row list"
  segments :: "segment_row list"
  files :: "string \<rightharpoonup> string"

text \<open>
  What the handlers take from their surroundings: the loaded \<^verbatim>\<open>config\<close>; the
  collaborator \<^verbatim>\<open>model.transcribe(path, language=...)\<close>, which reads the files and
  returns its result or raises; whether \<^verbatim>\<open>open(path, "wb")\<close> succeeds
  (it raises, for one, when the uploaded name contains a separator and the directory it
  names does not exist); and how many of the bytes reach the opened file before
  \<^verbatim>\<open>f.write\<close> raises, all of them when it does not. A file that exists is a regular
  file of the application's, which \<^verbatim>\<open>os.remove\<close> removes.
\<close>

record env =
  config :: "(string, json) fmap"
  model_transcribe :: "(string \<rightharpoonup> string) \<Rightarrow> string \<Rightarrow> json \<Rightarrow> exn + result_dict"
  can_open_wb :: "string \<Rightarrow> bool"
  bytes_written :: "string \<Rightarrow> string \<Rightarrow> nat"

datatype upload_file = UploadFile (upload_filename: string) (upload_bytes: string)

text \<open>
  The values the handlers return as JSON: \<^verbatim>\<open>{"status": s}\<close>, the list of
  \<^verbatim>\<open>{"id": i, "original_name": n}\<close>, and \<^verbatim>\<open>{"audio_url": u, "segments": [...]}\<close>
  with each segment a \<^verbatim>\<open>{"start", "end", "text"}\<close> dict. A request is answered with
  such a value or with \<^verbatim>\<open>FileResponse(path)\<close>.
\<close>

datatype response =
    Status string
  | LibraryList "(string \<times> string) list"
  | AudioDetail string "segment list"

datatype answer = Json response | FileResponse string

text \<open>
  No handler raises an HTTPException, so the framework answers 200 when a handler that
  returns JSON returns, and 500 when it raises. (What it answers to a
  \<^verbatim>\<open>FileResponse\<close> depends on the file and is no part of this.)
\<close>

definition http_status :: "exn + response \<Rightarrow> nat" where
  "http_status r = (case r of Inl _ \<Rightarrow> 500 | Inr _ \<Rightarrow> 200)"

subsection \<open>The handlers\<close>

text \<open>\<^verbatim>\<open>cursor.fetchone()\<close>: the first row of the result, or None.\<close>

definition fetchone :: "'a list \<Rightarrow> 'a option" where
  "fetchone rows = (case rows of [] \<Rightarrow> None | r # _ \<Rightarrow> Some r)"

text \<open>\<^verbatim>\<open>SELECT filename FROM audio WHERE id=?\<close>\<close>

definition select_filename :: "state \<Rightarrow> string \<Rightarrow> string list" where
  "select_filename s audio_id = map (\<lambda>(i, f, n). f) (filter (\<lambda>(i, f, n). i = audio_id) (audio s))"

text \<open>\<^verbatim>\<open>SELECT start, end, text FROM segments WHERE audio_id=?\<close>\<close>

definition select_segments :: "state \<Rightarrow> string \<Rightarrow> segment list" where
  "select_segments s audio_id =
     map (\<lambda>(a, st, en, tx). (st, en, tx)) (filter (\<lambda>(a, st, en, tx). a = audio_id) (segments s))"

text \<open>
  The loop of \<^verbatim>\<open>transcribe\<close> over \<^verbatim>\<open>result['segments']\<close>: one
  \<^verbatim>\<open>INSERT INTO segments\<close> for each segment, in order. Reading a missing entry of a
  segment raises KeyError and ends the loop, the rows inserted so far staying.
\<close>

fun insert_segments ::
  "string \<Rightarrow> segment_dict list \<Rightarrow> segment_row list \<Rightarrow> exn option \<times> segment_row list" where
  "insert_segments audio_id [] rows = (None, rows)"
| "insert_segments audio_id ((Some st, Some en, Some tx) # ss) rows =
     insert_segments audio_id ss (rows @ [(audio_id, st, en, tx)])"
| "insert_segments audio_id (_ # ss) rows = (Some KeyError, rows)"

text \<open>
  \<^verbatim>\<open>transcribe\<close>. \<open>u\<close> is the value of \<^verbatim>\<open>uuid.uuid4()\<close>. The handler ends in an
  exception, with the state reached so far, when the file cannot be opened for writing,
  when writing it stops short, when \<^verbatim>\<open>config['language']\<close> is missing, when the
  collaborator raises, when the primary key of \<^verbatim>\<open>audio\<close> rejects the id, when
  \<^verbatim>\<open>result['segments']\<close> is missing, and when an entry of a segment is missing. The
  audio row is inserted before \<^verbatim>\<open>result['segments']\<close> is read, and nothing is rolled
  back: after an exception the rows inserted so far are what the shared connection
  shows to the requests that follow, and what its next \<^verbatim>\<open>commit\<close> commits.
\<close>

definition transcribe :: "env \<Rightarrow> 128 word \<Rightarrow> upload_file \<Rightarrow> state \<Rightarrow> (exn + response) \<times> state" where
  "transcribe e u file s =
     (let audio_id = uuid_str u;
          filename = audio_id @ ''_'' @ upload_filename file;
          path = path_join UPLOAD_DIR filename
      in if \<not> can_open_wb e path then (Inl OSError, s)
         else if bytes_written e path (upload_bytes file) < length (upload_bytes file)
         then (Inl OSError,
               s\<lparr>files := (files s)
                  (path \<mapsto> take (bytes_written e path (upload_bytes file)) (upload_bytes file))\<rparr>)
         else
           let s1 = s\<lparr>files := (files s)(path \<mapsto> upload_bytes file)\<rparr>
           in (case fmlookup (config e) ''language'' of
                 None \<Rightarrow> (Inl KeyError, s1)
               | Some language \<Rightarrow>
                   (case model_transcribe e (files s1) path language of
                      Inl x \<Rightarrow> (Inl x, s1)
                    | Inr result \<Rightarrow>
                        if audio_id \<in> set (map fst (audio s1)) then (Inl IntegrityError, s1)
                        else
                          let s2 = s1\<lparr>audio :=
                                 audio s1 @ [(audio_id, filename, upload_filename file)]\<rparr>
                          in (case result of
                                None \<Rightarrow> (Inl KeyError, s2)
                              | Some result_segments \<Rightarrow>
                                  (case insert_segments audio_id result_segments (segments s2) of
                                     (Some x, rows) \<Rightarrow> (Inl x, s2\<lparr>segments := rows\<rparr>)
                                   | (None, rows) \<Rightarrow>
                                       (Inr (Status ''ok''), s2\<lparr>segments := rows\<rparr>))))))"

definition library :: "state \<Rightarrow> exn + response" where
  "library s = Inr (LibraryList (map (\<lambda>(i, f, n). (i, n)) (audio s)))"

text \<open>
  \<^verbatim>\<open>audio_data\<close>: \<^verbatim>\<open>cursor.fetchone()[0]\<close> raises TypeError when there is no row.
\<close>

definition audio_data :: "string \<Rightarrow> state \<Rightarrow> exn + response" where
  "audio_data audio_id s =
     (case fetchone (select_filename s audio_id) of
        None \<Rightarrow> Inl TypeError
      | Some filename \<Rightarrow>
          Inr (AudioDetail (''/audio/'' @ filename) (select_segments s audio_id)))"

text \<open>
  \<^verbatim>\<open>delete_audio\<close>: \<^verbatim>\<open>os.path.exists\<close> is membership in the domain of the files, and
  \<^verbatim>\<open>os.remove\<close> takes the path out of it.
\<close>

definition delete_audio :: "string \<Rightarrow> state \<Rightarrow> (exn + response) \<times> state" where
  "delete_audio audio_id s =
     (case fetchone (select_filename s audio_id) of
        Some filename \<Rightarrow>
          (let filepath = path_join UPLOAD_DIR filename;
               s1 = (if filepath \<in> dom (files s) then s\<lparr>files := (files s)(filepath := None)\<rparr>
                     else s);
               s2 = s1\<lparr>segments := filter (\<lambda>(a, st, en, tx). a \<noteq> audio_id) (segments s1)\<rparr>;
               s3 = s2\<lparr>audio := filter (\<lambda>(i, f, n). i \<noteq> audio_id) (audio s2)\<rparr>
           in (Inr (Status ''deleted''), s3))
      | None \<Rightarrow> (Inr (Status ''not_found''), s))"

definition get_audio :: "string \<Rightarrow> exn + answer" where
  "get_audio filename = Inr (FileResponse (path_join UPLOAD_DIR filename))"

subsection \<open>Requests\<close>

text \<open>
  The application as a whole: the store starts empty beside any files, and each request
  runs its handler on the state the previous one left.
\<close>

datatype request =
    PostTranscribe "128 word" upload_file
  | GetLibrary
  | GetAudioData string
  | DeleteAudio string
  | GetAudio string

fun json_answer :: "(exn + response) \<times> state \<Rightarrow> (exn + answer) \<times> state" where
  "json_answer (Inl x, s) = (Inl x, s)"
| "json_answer (Inr r, s) = (Inr (Json r), s)"

fun handle :: "env \<Rightarrow> request \<Rightarrow> state \<Rightarrow> (exn + answer) \<times> state" where
  "handle e (PostTranscribe u file) s = json_answer (transcribe e u file s)"
| "handle e GetLibrary s = json_answer (library s, s)"
| "handle e (GetAudioData audio_id) s = json_answer (audio_data audio_id s, s)"
| "handle e (DeleteAudio audio_id) s = json_answer (delete_audio audio_id s)"
| "handle e (GetAudio filename) s = (get_audio filename, s)"

fun run :: "env \<Rightarrow> request list \<Rightarrow> state \<Rightarrow> state" where
  "run e [] s = s"
| "run e (r # rs) s = run e rs (snd (handle e r s))"

definition init_state :: "(string \<rightharpoonup> string) \<Rightarrow> state" where
  "init_state fs = \<lparr>audio = [], segments = [], files = fs\<rparr>"

text \<open>Every segment row belongs to a row of \<^verbatim>\<open>audio\<close>.\<close>

definition ref_integrity :: "state \<Rightarrow> bool" where
  "ref_integrity s = (\<forall>r \<in> set (segments s). fst r \<in> set (map fst (audio s)))"

text \<open>
  Every stored name is the id of its row, an underscore and the original name, and every
  id has the 36 characters of a printed UUID, the first of them not a separator.
\<close>

definition stored_names :: "state \<Rightarrow> bool" where
  "stored_names s =
     (\<forall>(i, f, n) \<in> set (audio s). length i = 36 \<and> \<not> startswith_sep i \<and> f = i @ ''_'' @ n)"

text \<open>
  The upload that created the audio \<open>a\<close> of a history: in the requests \<open>reqs\<close>, run from
  the state \<open>s0\<close>, it is the upload \<open>PostTranscribe u file\<close> that comes after the requests
  \<open>before\<close> and is followed by the requests \<open>later\<close>; it has the id \<open>a\<close> and inserted the
  row of \<open>a\<close>, and no later request deletes \<open>a\<close>.
\<close>

definition created_by ::
  "env \<Rightarrow> state \<Rightarrow> string \<Rightarrow> request list \<Rightarrow> request list \<Rightarrow> 128 word \<Rightarrow> upload_file
     \<Rightarrow> request list \<Rightarrow> bool" where
  "created_by e s0 a reqs before u file later \<longleftrightarrow>
     reqs = before @ PostTranscribe u file # later
     \<and> uuid_str u = a
     \<and> a \<notin> set (map fst (audio (run e before s0)))
     \<and> a \<in> set (map fst (audio (snd (transcribe e u file (run e before s0)))))
     \<and> DeleteAudio a \<notin> set later"

text \<open>
  Of the segments of a result, those the loop of \<^verbatim>\<open>transcribe\<close> inserts: the ones
  before the first that lacks an entry; the segments of a result, none when it has no
  \<^verbatim>\<open>segments\<close> entry; and the starts of segments, in order, of those that have one.
\<close>

fun inserted :: "segment_dict list \<Rightarrow> segment list" where
  "inserted [] = []"
| "inserted ((Some st, Some en, Some tx) # ss) = (st, en, tx) # inserted ss"
| "inserted (_ # ss) = []"

definition result_segments :: "result_dict \<Rightarrow> segment_dict list" where
  "result_segments result = (case result of None \<Rightarrow> [] | Some ss \<Rightarrow> ss)"

fun starts :: "segment_dict list \<Rightarrow> real list" where
  "starts [] = []"
| "starts ((Some st, en, tx) # ss) = st # starts ss"
| "starts ((None, en, tx) # ss) = starts ss"

subsection \<open>An example run\<close>

text \<open>
  The scenario of the specification: the upload of \<^verbatim>\<open>lesson1.mp3\<close>, for which the
  collaborator returns two segments, under the default configuration and a file system
  in which a file can be created directly in the uploads directory and nowhere else, and
  is then written in full.
\<close>

definition example_segments :: "segment list" where
  "example_segments = [(0, 5 / 2, ''konnichiwa''), (5 / 2, 5, ''genki desu ka'')]"

definition example_env :: env where
  "example_env = \<lparr>config = default_config,
     model_transcribe = (\<lambda>fs path language. Inr (Some (map as_dict example_segments))),
     can_open_wb = (\<lambda>path. length (split_sep path) = 2),
     bytes_written = (\<lambda>path data. length data)\<rparr>"

definition example_upload :: upload_file where
  "example_upload = UploadFile ''lesson1.mp3'' ''RIFF''"

text \<open>
  Two more collaborators. One returns, for the upload whose bytes are \<^verbatim>\<open>noise\<close>, two
  segments whose starts decrease, and the segments of the scenario for any other. The
  other returns a result whose second segment has no \<^verbatim>\<open>end\<close> entry.
\<close>

definition noisy_upload :: upload_file where
  "noisy_upload = UploadFile ''noise.mp3'' ''noise''"

definition unsorted_segments :: "segment list" where
  "unsorted_segments = [(5, 6, ''b''), (0, 1, ''a'')]"

definition mixed_env :: env where
  "mixed_env = example_env\<lparr>model_transcribe :=
     (\<lambda>fs path language.
        if fs path = Some ''noise'' then Inr (Some (map as_dict unsorted_segments))
        else Inr (Some (map as_dict example_segments)))\<rparr>"

definition broken_segments :: "segment_dict list" where
  "broken_segments = [(Some 0, Some (5 / 2), Some ''konnichiwa''),
                      (Some (5 / 2), None, Some ''genki desu ka'')]"

definition broken_env :: env where
  "broken_env = example_env\<lparr>model_transcribe := (\<lambda>fs path language. Inr (Some broken_segments))\<rparr>"

section \<open>Configuration loading\<close>

lemma load_config_present:
  "fst (load_config (Some c)) = default_config ++\<^sub>f file_keys c"
  by (cases c rule: file_keys.cases) (simp_all add: load_config_def)

lemma fmdom'_default_config:
  "fmdom' default_config = {''language'', ''model_size'', ''device''}"
  by (auto simp: default_config_def fmdom'_alt_def fmlookup_of_list fmlookup_dom_iff
      split: if_splits)

text \<open>
  Claim C8. When the configuration file is present, every key it supplies overrides the
  default, the defaults fill exactly the keys it does not supply, the keys of the result
  are those of the file together with language, model_size and device, and the file is
  left as it was. When the file is absent, the defaults are returned and the file is
  created holding exactly the defaults.
\<close>

theorem load_config_merges_defaults:
  "fmlookup (fst (load_config (Some c))) k =
     (case fmlookup (file_keys c) k of Some v \<Rightarrow> Some v | None \<Rightarrow> fmlookup default_config k)
   \<and> fmdom' (fst (load_config (Some c))) =
       fmdom' (file_keys c) \<union> {''language'', ''model_size'', ''device''}
   \<and> snd (load_config (Some c)) = Some c
   \<and> load_config None = (default_config, Some (Parsed (JDict default_config)))
   \<and> file_keys (Parsed (JDict default_config)) = default_config"
proof -
  have "fmlookup (default_config ++\<^sub>f file_keys c) k =
     (case fmlookup (file_keys c) k of Some v \<Rightarrow> Some v | None \<Rightarrow> fmlookup default_config k)"
    by (simp add: fmlookup_dom_iff split: option.splits)
  moreover have "snd (load_config (Some c)) = Some c"
    by (simp add: load_config_def split: file_content.splits sum.splits)
  moreover have "load_config None = (default_config, Some (Parsed (JDict default_config)))"
    by (simp add: load_config_def)
  ultimately show ?thesis
    by (simp add: load_config_present fmdom'_default_config Un_commute)
qed

theorem load_config_merges_defaults_witness:
  "fmlookup (fst (load_config (Some (Parsed (JDict (fmap_of_list [(''language'', JStr ''en'')]))))))
     ''language'' = Some (JStr ''en'')
   \<and> fmlookup (fst (load_config (Some (Parsed (JDict (fmap_of_list [(''language'', JStr ''en'')]))))))
     ''device'' = Some (JStr ''cpu'')
   \<and> fmlookup (fst (load_config (Some Unparsable))) ''language'' = Some (JStr ''ja'')"
  using load_config_merges_defaults
    [of "Parsed (JDict (fmap_of_list [(''language'', JStr ''en'')]))" "''language''"]
    load_config_merges_defaults
    [of "Parsed (JDict (fmap_of_list [(''language'', JStr ''en'')]))" "''device''"]
    load_config_merges_defaults [of Unparsable "''language''"]
  by (simp add: default_config_def fmlookup_of_list)


section \<open>Facts about the embedding\<close>

subsection \<open>Identifiers and stored paths\<close>

lemma length_hex32: "length (hex32 u) = 32"
  by (simp add: hex32_def)

lemma length_uuid_str: "length (uuid_str u) = 36"
  by (simp add: uuid_str_def Let_def length_hex32)

lemma hex_digit_not_sep: "hex_digit n \<noteq> CHR ''/''"
proof -
  have "n mod 16 < length ''0123456789abcdef''" by simp
  then have "hex_digit n \<in> set ''0123456789abcdef''"
    unfolding hex_digit_def by (rule nth_mem)
  then show ?thesis by auto
qed

lemma uuid_str_not_absolute: "\<not> startswith_sep (uuid_str u @ x)"
proof -
  have digits: "\<forall>c \<in> set (hex32 u). c \<noteq> CHR ''/''"
    by (auto simp: hex32_def hex_digit_not_sep)
  obtain c cs where h: "hex32 u = c # cs"
    using length_hex32 [of u] by (cases "hex32 u") auto
  with digits have "c \<noteq> CHR ''/''" by simp
  with h show ?thesis
    by (simp add: uuid_str_def Let_def startswith_sep_def)
qed

lemma path_join_upload_dir:
  "\<not> startswith_sep b \<Longrightarrow> path_join UPLOAD_DIR b = ''uploads/'' @ b"
  by (simp add: path_join_def UPLOAD_DIR_def endswith_sep_def)

lemma stored_path: 
  "path_join UPLOAD_DIR (uuid_str u @ x) = ''uploads/'' @ uuid_str u @ x"
  by (simp add: path_join_upload_dir uuid_str_not_absolute)

subsection \<open>Selections and referential integrity\<close>

lemma select_filename_absent:
  "a \<notin> set (map fst (audio s)) \<Longrightarrow> select_filename s a = []"
  by (force simp: select_filename_def filter_empty_conv)

lemma select_filename_present:
  "a \<in> set (map fst (audio s)) \<Longrightarrow> select_filename s a \<noteq> []"
  by (auto simp: select_filename_def filter_empty_conv)

lemma select_segments_absent:
  "ref_integrity s \<Longrightarrow> a \<notin> set (map fst (audio s)) \<Longrightarrow> select_segments s a = []"
  by (force simp: select_segments_def ref_integrity_def filter_empty_conv)

subsection \<open>The loop over the segments\<close>

lemma inserted_as_dict: "inserted (map as_dict segs) = segs"
  by (induction segs) (auto simp: as_dict_def)

lemma insert_segments_eq:
  "insert_segments a ss rows =
     (if map as_dict (inserted ss) = ss then None else Some KeyError,
      rows @ map (\<lambda>(st, en, tx). (a, st, en, tx)) (inserted ss))"
  by (induction a ss rows rule: insert_segments.induct) (auto simp: as_dict_def)

lemma starts_inserted: "\<exists>more. starts ss = map fst (inserted ss) @ more"
  by (induction ss rule: inserted.induct) auto

lemma sorted_inserted: "sorted (starts ss) \<Longrightarrow> sorted (map fst (inserted ss))"
proof -
  assume "sorted (starts ss)"
  moreover obtain more where "starts ss = map fst (inserted ss) @ more"
    using starts_inserted by blast
  ultimately show ?thesis by (simp add: sorted_append)
qed

subsection \<open>The outcomes of transcribe\<close>

lemma transcribe_outcome:
  "(audio (snd (transcribe e u file s)) = audio s
      \<and> segments (snd (transcribe e u file s)) = segments s
      \<and> (\<exists>x. fst (transcribe e u file s) = Inl x))
   \<or> (\<exists>language result.
         fmlookup (config e) ''language'' = Some language
       \<and> can_open_wb e (''uploads/'' @ uuid_str u @ ''_'' @ upload_filename file)
       \<and> model_transcribe e
            ((files s)(''uploads/'' @ uuid_str u @ ''_'' @ upload_filename file \<mapsto> upload_bytes file))
            (''uploads/'' @ uuid_str u @ ''_'' @ upload_filename file) language = Inr result
       \<and> uuid_str u \<notin> set (map fst (audio s))
       \<and> audio (snd (transcribe e u file s)) =
           audio s @ [(uuid_str u, uuid_str u @ ''_'' @ upload_filename file, upload_filename file)]
       \<and> segments (snd (transcribe e u file s)) =
           segments s @ map (\<lambda>(st, en, tx). (uuid_str u, st, en, tx))
             (inserted (result_segments result))
       \<and> files (snd (transcribe e u file s)) =
           (files s)(''uploads/'' @ uuid_str u @ ''_'' @ upload_filename file \<mapsto> upload_bytes file)
       \<and> (\<forall>r. fst (transcribe e u file s) = Inr r \<longrightarrow>
             r = Status ''ok''
             \<and> result = Some (map as_dict (inserted (result_segments result)))))"
  by (auto simp: transcribe_def Let_def stored_path insert_segments_eq result_segments_def
      split: option.splits sum.splits)

lemma transcribe_success:
  assumes "fst (transcribe e u file s) = Inr r"
  shows "\<exists>language segs.
     fmlookup (config e) ''language'' = Some language
     \<and> can_open_wb e (''uploads/'' @ uuid_str u @ ''_'' @ upload_filename file)
     \<and> model_transcribe e
          ((files s)(''uploads/'' @ uuid_str u @ ''_'' @ upload_filename file \<mapsto> upload_bytes file))
          (''uploads/'' @ uuid_str u @ ''_'' @ upload_filename file) language
        = Inr (Some (map as_dict segs))
     \<and> uuid_str u \<notin> set (map fst (audio s))
     \<and> r = Status ''ok''
     \<and> audio (snd (transcribe e u file s)) =
         audio s @ [(uuid_str u, uuid_str u @ ''_'' @ upload_filename file, upload_filename file)]
     \<and> segments (snd (transcribe e u file s)) =
         segments s @ map (\<lambda>(st, en, tx). (uuid_str u, st, en, tx)) segs
     \<and> files (snd (transcribe e u file s)) =
         (files s)(''uploads/'' @ uuid_str u @ ''_'' @ upload_filename file \<mapsto> upload_bytes file)"
proof -
  from transcribe_outcome [of e u "file" s] assms obtain language result where
    out: "fmlookup (config e) ''language'' = Some language"
      "can_open_wb e (''uploads/'' @ uuid_str u @ ''_'' @ upload_filename file)"
      "model_transcribe e
          ((files s)(''uploads/'' @ uuid_str u @ ''_'' @ upload_filename file \<mapsto> upload_bytes file))
          (''uploads/'' @ uuid_str u @ ''_'' @ upload_filename file) language = Inr result"
      "uuid_str u \<notin> set (map fst (audio s))"
      "audio (snd (transcribe e u file s)) =
         audio s @ [(uuid_str u, uuid_str u @ ''_'' @ upload_filename file, upload_filename file)]"
      "segments (snd (transcribe e u file s)) =
           segments s @ map (\<lambda>(st, en, tx). (uuid_str u, st, en, tx))
             (inserted (result_segments result))"
      "files (snd (transcribe e u file s)) =
         (files s)(''uploads/'' @ uuid_str u @ ''_'' @ upload_filename file \<mapsto> upload_bytes file)"
    and ok: "r = Status ''ok''"
      "result = Some (map as_dict (inserted (result_segments result)))"
    by auto
  from out(3) ok(2) have "model_transcribe e
          ((files s)(''uploads/'' @ uuid_str u @ ''_'' @ upload_filename file \<mapsto> upload_bytes file))
          (''uploads/'' @ uuid_str u @ ''_'' @ upload_filename file) language
        = Inr (Some (map as_dict (inserted (result_segments result))))"
    by simp
  with out ok(1) show ?thesis by blast
qed


lemma transcribe_rows:
  "(audio (snd (transcribe e u file s)) = audio s
      \<and> segments (snd (transcribe e u file s)) = segments s)
   \<or> (\<exists>segs. uuid_str u \<notin> set (map fst (audio s))
       \<and> audio (snd (transcribe e u file s)) =
           audio s @ [(uuid_str u, uuid_str u @ ''_'' @ upload_filename file, upload_filename file)]
       \<and> segments (snd (transcribe e u file s)) =
           segments s @ map (\<lambda>(st, en, tx). (uuid_str u, st, en, tx)) segs)"
  using transcribe_outcome [of e u "file" s] by blast

lemma snd_json_answer: "snd (json_answer x) = snd x"
  by (cases x rule: json_answer.cases) simp_all

subsection \<open>Referential integrity is kept\<close>

lemma ref_integrity_transcribe:
  assumes "ref_integrity s"
  shows "ref_integrity (snd (transcribe e u file s))"
proof -
  have old: "\<forall>r \<in> set (segments s). fst r \<in> set (map fst (audio s))"
    using assms by (simp add: ref_integrity_def)
  from transcribe_rows [of e u "file" s] show ?thesis
  proof (elim disjE exE conjE)
    assume "audio (snd (transcribe e u file s)) = audio s"
      and "segments (snd (transcribe e u file s)) = segments s"
    with old show ?thesis by (simp add: ref_integrity_def)
  next
    fix segs
    assume "audio (snd (transcribe e u file s)) =
        audio s @ [(uuid_str u, uuid_str u @ ''_'' @ upload_filename file, upload_filename file)]"
      and "segments (snd (transcribe e u file s)) =
        segments s @ map (\<lambda>(st, en, tx). (uuid_str u, st, en, tx)) segs"
    with old show ?thesis by (fastforce simp: ref_integrity_def)
  qed
qed

lemma ref_integrity_delete_audio:
  "ref_integrity s \<Longrightarrow> ref_integrity (snd (delete_audio a s))"
  by (force simp: delete_audio_def Let_def ref_integrity_def split: option.splits)

lemma ref_integrity_handle:
  "ref_integrity s \<Longrightarrow> ref_integrity (snd (handle e r s))"
  by (cases r)
    (simp_all add: snd_json_answer ref_integrity_transcribe ref_integrity_delete_audio)

lemma ref_integrity_run:
  "ref_integrity s \<Longrightarrow> ref_integrity (run e rs s)"
  by (induction rs arbitrary: s) (simp_all add: ref_integrity_handle)

lemma ref_integrity_init: "ref_integrity (init_state fs)"
  by (simp add: ref_integrity_def init_state_def)

subsection \<open>The outcomes of delete_audio\<close>

lemma audio_data_selects:
  "select_filename s' a = select_filename s a \<Longrightarrow> select_segments s' a = select_segments s a
   \<Longrightarrow> audio_data a s' = audio_data a s"
  by (simp add: audio_data_def split: option.splits)

lemma fetchone_select_filename:
  "fetchone (select_filename s a) = Some f \<Longrightarrow> \<exists>n. (a, f, n) \<in> set (audio s)"
proof -
  assume "fetchone (select_filename s a) = Some f"
  then have "f \<in> set (select_filename s a)"
    by (auto simp: fetchone_def split: list.splits)
  then show ?thesis
    by (auto simp: select_filename_def)
qed

lemma delete_audio_absent:
  "a \<notin> set (map fst (audio s)) \<Longrightarrow> delete_audio a s = (Inr (Status ''not_found''), s)"
  by (simp add: delete_audio_def select_filename_absent fetchone_def)

lemma delete_audio_present:
  assumes "a \<in> set (map fst (audio s))"
  shows "\<exists>f. fetchone (select_filename s a) = Some f
    \<and> fst (delete_audio a s) = Inr (Status ''deleted'')
    \<and> audio (snd (delete_audio a s)) = filter (\<lambda>(i, f, n). i \<noteq> a) (audio s)
    \<and> segments (snd (delete_audio a s)) = filter (\<lambda>(b, st, en, tx). b \<noteq> a) (segments s)
    \<and> files (snd (delete_audio a s)) = (files s)(path_join UPLOAD_DIR f := None)"
proof -
  from select_filename_present [OF assms] obtain f where
    f: "fetchone (select_filename s a) = Some f"
    by (cases "select_filename s a") (auto simp: fetchone_def)
  have "(files s)(path_join UPLOAD_DIR f := None) = files s" if "path_join UPLOAD_DIR f \<notin> dom (files s)"
    using that by (auto simp: fun_upd_idem_iff)
  with f show ?thesis
    by (auto simp: delete_audio_def Let_def)
qed

lemma ids_after_delete:
  "a \<notin> set (map fst (audio (snd (delete_audio a s))))"
proof (cases "a \<in> set (map fst (audio s))")
  case True
  from delete_audio_present [OF True] show ?thesis by auto
next
  case False
  then show ?thesis by (simp add: delete_audio_absent)
qed

subsection \<open>Requests that leave an audio alone\<close>

lemma select_segments_inserted:
  assumes "segments s' = segments s @ map (\<lambda>(st, en, tx). (i, st, en, tx)) segs"
  shows "select_segments s' a = select_segments s a @ (if a = i then segs else [])"
proof -
  have "map (\<lambda>(b, st, en, tx). (st, en, tx))
          (filter (\<lambda>(b, st, en, tx). b = a) (map (\<lambda>(st, en, tx). (i, st, en, tx)) segs))
        = (if a = i then segs else [])"
    by (induction segs) auto
  with assms show ?thesis
    by (simp add: select_segments_def)
qed

lemma select_filename_inserted:
  "audio s' = audio s @ [(i, f, n)]
   \<Longrightarrow> select_filename s' a = select_filename s a @ (if a = i then [f] else [])"
  by (simp add: select_filename_def)

lemma select_filename_deleted:
  assumes "audio s' = filter (\<lambda>(i, f, n). i \<noteq> b) (audio s)" and "a \<noteq> b"
  shows "select_filename s' a = select_filename s a"
proof -
  have "filter (\<lambda>(i, f, n). i = a) (filter (\<lambda>(i, f, n). i \<noteq> b) rows)
      = filter (\<lambda>(i, f, n). i = a) rows" for rows :: "audio_row list"
    using \<open>a \<noteq> b\<close> by (induction rows) (auto simp: case_prod_unfold)
  with assms show ?thesis
    by (simp add: select_filename_def)
qed

lemma select_segments_deleted:
  assumes "segments s' = filter (\<lambda>(i, st, en, tx). i \<noteq> b) (segments s)"
  shows "select_segments s' a = (if a = b then [] else select_segments s a)"
proof -
  have "filter (\<lambda>(i, st, en, tx). i = a) (filter (\<lambda>(i, st, en, tx). i \<noteq> b) rows)
      = (if a = b then [] else filter (\<lambda>(i, st, en, tx). i = a) rows)"
    for rows :: "segment_row list"
    by (induction rows) (auto simp: case_prod_unfold)
  with assms show ?thesis
    by (simp add: select_segments_def)
qed

lemma present_iff_select: "a \<in> set (map fst (audio s)) \<longleftrightarrow> select_filename s a \<noteq> []"
  using select_filename_absent select_filename_present by blast

lemma transcribe_keeps_other:
  assumes "a \<in> set (map fst (audio s))"
  shows "select_filename (snd (transcribe e u file s)) a = select_filename s a
    \<and> select_segments (snd (transcribe e u file s)) a = select_segments s a"
proof -
  from transcribe_rows [of e u "file" s] consider
    (untouched) "audio (snd (transcribe e u file s)) = audio s"
      "segments (snd (transcribe e u file s)) = segments s"
  | (rows) segs where "uuid_str u \<notin> set (map fst (audio s))"
      "audio (snd (transcribe e u file s)) =
         audio s @ [(uuid_str u, uuid_str u @ ''_'' @ upload_filename file, upload_filename file)]"
      "segments (snd (transcribe e u file s)) =
         segments s @ map (\<lambda>(st, en, tx). (uuid_str u, st, en, tx)) segs"
    by blast
  then show ?thesis
  proof cases
    case untouched
    then show ?thesis
      by (simp add: select_filename_def select_segments_def)
  next
    case rows
    from rows(1) assms have "a \<noteq> uuid_str u" by blast
    then show ?thesis
      by (simp add: select_filename_inserted [OF rows(2)] select_segments_inserted [OF rows(3)])
  qed
qed

lemma delete_audio_keeps_other:
  assumes "a \<noteq> b"
  shows "select_filename (snd (delete_audio b s)) a = select_filename s a
    \<and> select_segments (snd (delete_audio b s)) a = select_segments s a"
proof (cases "b \<in> set (map fst (audio s))")
  case True
  from delete_audio_present [OF True] obtain f where
    au: "audio (snd (delete_audio b s)) = filter (\<lambda>(i, f, n). i \<noteq> b) (audio s)"
    and se: "segments (snd (delete_audio b s)) = filter (\<lambda>(i, st, en, tx). i \<noteq> b) (segments s)"
    by blast
  from assms show ?thesis
    by (simp add: select_filename_deleted [OF au] select_segments_deleted [OF se])
next
  case False
  then show ?thesis by (simp add: delete_audio_absent)
qed

lemma handle_keeps_other:
  assumes "a \<in> set (map fst (audio s))" and "r \<noteq> DeleteAudio a"
  shows "select_filename (snd (handle e r s)) a = select_filename s a
    \<and> select_segments (snd (handle e r s)) a = select_segments s a"
proof (cases r)
  case (PostTranscribe u upl)
  with transcribe_keeps_other [OF assms(1)] show ?thesis
    by (simp add: snd_json_answer)
next
  case (DeleteAudio b)
  with assms(2) have "a \<noteq> b" by simp
  from delete_audio_keeps_other [OF this] DeleteAudio show ?thesis
    by (simp add: snd_json_answer)
qed (simp_all add: snd_json_answer)

lemma run_keeps_other:
  "a \<in> set (map fst (audio s)) \<Longrightarrow> DeleteAudio a \<notin> set rs
   \<Longrightarrow> select_filename (run e rs s) a = select_filename s a
     \<and> select_segments (run e rs s) a = select_segments s a"
proof (induction rs arbitrary: s)
  case Nil
  then show ?case by simp
next
  case (Cons r rs)
  from Cons.prems have r: "r \<noteq> DeleteAudio a" and rs: "DeleteAudio a \<notin> set rs" by auto
  from handle_keeps_other [OF Cons.prems(1) r]
  have keep: "select_filename (snd (handle e r s)) a = select_filename s a"
    "select_segments (snd (handle e r s)) a = select_segments s a"
    by simp_all
  from Cons.prems(1) have "select_filename s a \<noteq> []"
    by (rule select_filename_present)
  with keep(1) have "a \<in> set (map fst (audio (snd (handle e r s))))"
    using present_iff_select [of a "snd (handle e r s)"] by simp
  from Cons.IH [OF this rs] keep show ?case by simp
qed

subsection \<open>Stored names\<close>

lemma stored_names_transcribe:
  assumes "stored_names s"
  shows "stored_names (snd (transcribe e u file s))"
  using transcribe_rows [of e u "file" s] assms uuid_str_not_absolute [of u "[]"]
  by (auto simp: stored_names_def length_uuid_str)

lemma stored_names_delete_audio:
  assumes "stored_names s"
  shows "stored_names (snd (delete_audio a s))"
proof (cases "a \<in> set (map fst (audio s))")
  case True
  from delete_audio_present [OF True] assms show ?thesis
    by (auto simp: stored_names_def)
next
  case False
  with assms show ?thesis by (simp add: delete_audio_absent)
qed

lemma stored_names_handle: "stored_names s \<Longrightarrow> stored_names (snd (handle e r s))"
  by (cases r)
    (simp_all add: snd_json_answer stored_names_transcribe stored_names_delete_audio)

lemma stored_names_run: "stored_names s \<Longrightarrow> stored_names (run e rs s)"
  by (induction rs arbitrary: s) (simp_all add: stored_names_handle)

lemma stored_names_init: "stored_names (init_state fs)"
  by (simp add: stored_names_def init_state_def)

lemma stored_names_path:
  assumes "stored_names s" and "(i, f, n) \<in> set (audio s)"
  shows "length i = 36 \<and> path_join UPLOAD_DIR f = ''uploads/'' @ i @ ''_'' @ n"
proof -
  from assms have i: "length i = 36" "\<not> startswith_sep i" and f: "f = i @ ''_'' @ n"
    by (auto simp: stored_names_def)
  from i have "\<not> startswith_sep f"
    unfolding f by (cases i) (simp_all add: startswith_sep_def)
  with i f show ?thesis
    by (simp add: path_join_upload_dir)
qed

lemma stored_paths_differ:
  assumes "stored_names s" and "(a, fa, na) \<in> set (audio s)" and "(b, fb, nb) \<in> set (audio s)"
    and "a \<noteq> b"
  shows "path_join UPLOAD_DIR fa \<noteq> path_join UPLOAD_DIR fb"
  using stored_names_path [OF assms(1,2)] stored_names_path [OF assms(1,3)] assms(4)
  by auto

lemma delete_audio_rows:
  assumes "ref_integrity s"
  shows "audio (snd (delete_audio a s)) = filter (\<lambda>(i, f, n). i \<noteq> a) (audio s)
    \<and> segments (snd (delete_audio a s)) = filter (\<lambda>(i, st, en, tx). i \<noteq> a) (segments s)"
proof (cases "a \<in> set (map fst (audio s))")
  case True
  from delete_audio_present [OF True] show ?thesis by blast
next
  case False
  then have "\<forall>r \<in> set (audio s). fst r \<noteq> a"
    by auto
  then have "filter (\<lambda>(i, f, n). i \<noteq> a) (audio s) = audio s"
    by (simp add: case_prod_unfold)
  moreover from False assms have "\<forall>r \<in> set (segments s). fst r \<noteq> a"
    unfolding ref_integrity_def by blast
  then have "filter (\<lambda>(i, st, en, tx). i \<noteq> a) (segments s) = segments s"
    by (simp add: case_prod_unfold)
  ultimately show ?thesis
    using False by (simp add: delete_audio_absent)
qed

subsection \<open>Distinct ids\<close>

lemma distinct_ids_handle:
  assumes "distinct (map fst (audio s))"
  shows "distinct (map fst (audio (snd (handle e r s))))"
proof (cases r)
  case (PostTranscribe u upl)
  from transcribe_rows [of e u upl s] assms have
    "distinct (map fst (audio (snd (transcribe e u upl s))))"
    by auto
  with PostTranscribe show ?thesis by (simp add: snd_json_answer)
next
  case (DeleteAudio a)
  show ?thesis
  proof (cases "a \<in> set (map fst (audio s))")
    case True
    from delete_audio_present [OF True] assms DeleteAudio show ?thesis
      by (auto simp: distinct_map_filter snd_json_answer)
  next
    case False
    with assms DeleteAudio show ?thesis by (simp add: delete_audio_absent snd_json_answer)
  qed
qed (simp_all add: assms snd_json_answer)

lemma distinct_ids_run:
  "distinct (map fst (audio s)) \<Longrightarrow> distinct (map fst (audio (run e rs s)))"
  by (induction rs arbitrary: s) (simp_all add: distinct_ids_handle)

lemma distinct_ids_init: "distinct (map fst (audio (init_state fs)))"
  by (simp add: init_state_def)

lemma delete_audio_file:
  assumes "distinct (map fst (audio s))" and "(a, f, n) \<in> set (audio s)"
  shows "files (snd (delete_audio a s)) = (files s)(path_join UPLOAD_DIR f := None)"
proof -
  from assms(2) have "a \<in> set (map fst (audio s))" by force
  from delete_audio_present [OF this] obtain fa where
    fa: "fetchone (select_filename s a) = Some fa"
    and fi: "files (snd (delete_audio a s)) = (files s)(path_join UPLOAD_DIR fa := None)"
    by blast
  from fetchone_select_filename [OF fa] obtain na where "(a, fa, na) \<in> set (audio s)" ..
  from eq_key_imp_eq_value [OF assms(1) this assms(2)] have "fa = f" by simp
  with fi show ?thesis by simp
qed


subsection \<open>The upload that created an audio\<close>

lemma as_dict_inj: "map as_dict xs = map as_dict ys \<Longrightarrow> xs = ys"
  using inserted_as_dict by metis

lemma run_snoc: "run e (rs @ [r]) s = snd (handle e r (run e rs s))"
  by (induction rs arbitrary: s) simp_all

lemma run_append: "run e (xs @ ys) s = run e ys (run e xs s)"
  by (induction xs arbitrary: s) simp_all

lemma handle_creates:
  assumes absent: "a \<notin> set (map fst (audio s))"
    and present: "a \<in> set (map fst (audio (snd (handle e r s))))"
    and ri: "ref_integrity s"
  shows "\<exists>u file language result.
      r = PostTranscribe u file \<and> uuid_str u = a
    \<and> fmlookup (config e) ''language'' = Some language
    \<and> model_transcribe e
         ((files s)(path_join UPLOAD_DIR (uuid_str u @ ''_'' @ upload_filename file)
            \<mapsto> upload_bytes file))
         (path_join UPLOAD_DIR (uuid_str u @ ''_'' @ upload_filename file)) language = Inr result
    \<and> select_segments (snd (handle e r s)) a = inserted (result_segments result)"
proof (cases r)
  case (PostTranscribe u upl)
  from present PostTranscribe
  have now: "a \<in> set (map fst (audio (snd (transcribe e u upl s))))"
    by (simp add: snd_json_answer)
  with absent have changed: "audio (snd (transcribe e u upl s)) \<noteq> audio s"
    by auto
  with transcribe_outcome [of e u upl s] obtain language result where
    lang: "fmlookup (config e) ''language'' = Some language"
    and model: "model_transcribe e
            ((files s)(''uploads/'' @ uuid_str u @ ''_'' @ upload_filename upl \<mapsto> upload_bytes upl))
            (''uploads/'' @ uuid_str u @ ''_'' @ upload_filename upl) language = Inr result"
    and fresh: "uuid_str u \<notin> set (map fst (audio s))"
    and au: "audio (snd (transcribe e u upl s)) =
           audio s @ [(uuid_str u, uuid_str u @ ''_'' @ upload_filename upl, upload_filename upl)]"
    and se: "segments (snd (transcribe e u upl s)) =
           segments s @ map (\<lambda>(st, en, tx). (uuid_str u, st, en, tx))
             (inserted (result_segments result))"
    by blast
  from now absent au have id: "uuid_str u = a" by auto
  from select_segments_inserted [OF se, of a] select_segments_absent [OF ri absent] id
  have "select_segments (snd (transcribe e u upl s)) a = inserted (result_segments result)"
    by simp
  with PostTranscribe id lang model show ?thesis
    by (simp add: snd_json_answer stored_path)
next
  case (DeleteAudio b)
  have "set (map fst (audio (snd (delete_audio b s)))) \<subseteq> set (map fst (audio s))"
  proof (cases "b \<in> set (map fst (audio s))")
    case True
    from delete_audio_present [OF True] show ?thesis by auto
  next
    case False
    then show ?thesis by (simp add: delete_audio_absent)
  qed
  with absent present DeleteAudio show ?thesis
    by (auto simp: snd_json_answer)
next
  case GetLibrary
  with absent present show ?thesis by (simp add: snd_json_answer)
next
  case (GetAudioData b)
  with absent present show ?thesis by (simp add: snd_json_answer)
next
  case (GetAudio f)
  with absent present show ?thesis by simp
qed

lemma created_by_exists:
  "a \<in> set (map fst (audio (run e reqs (init_state fs)))) \<Longrightarrow>
   \<exists>before u file later. created_by e (init_state fs) a reqs before u file later"
proof (induction reqs rule: rev_induct)
  case Nil
  then show ?case by (simp add: init_state_def)
next
  case (snoc r rs)
  let ?s = "run e rs (init_state fs)"
  from snoc.prems have now: "a \<in> set (map fst (audio (snd (handle e r ?s))))"
    by (simp add: run_snoc)
  show ?case
  proof (cases "a \<in> set (map fst (audio ?s))")
    case True
    have r: "r \<noteq> DeleteAudio a"
    proof
      assume "r = DeleteAudio a"
      with now ids_after_delete [of a ?s] show False
        by (simp add: snd_json_answer)
    qed
    from snoc.IH [OF True] obtain before u upl later where
      "created_by e (init_state fs) a rs before u upl later"
      by blast
    with r have "created_by e (init_state fs) a (rs @ [r]) before u upl (later @ [r])"
      by (auto simp: created_by_def)
    then show ?thesis by blast
  next
    case False
    have ri: "ref_integrity ?s"
      by (simp add: ref_integrity_run ref_integrity_init)
    from handle_creates [OF False now ri] obtain u upl where
      r: "r = PostTranscribe u upl" and id: "uuid_str u = a"
      by blast
    from now r have "a \<in> set (map fst (audio (snd (transcribe e u upl ?s))))"
      by (simp add: snd_json_answer)
    with False r id have "created_by e (init_state fs) a (rs @ [r]) rs u upl []"
      by (simp add: created_by_def)
    then show ?thesis by blast
  qed
qed

lemma created_by_segments:
  assumes created: "created_by e s0 a reqs before u file later"
    and ri: "ref_integrity s0"
    and language: "fmlookup (config e) ''language'' = Some language"
    and model: "model_transcribe e
         ((files (run e before s0))
            (path_join UPLOAD_DIR (uuid_str u @ ''_'' @ upload_filename file) \<mapsto> upload_bytes file))
         (path_join UPLOAD_DIR (uuid_str u @ ''_'' @ upload_filename file)) language = Inr result"
  shows "select_segments (run e reqs s0) a = inserted (result_segments result)"
proof -
  let ?s = "run e before s0"
  let ?s1 = "snd (handle e (PostTranscribe u file) ?s)"
  from created have reqs: "reqs = before @ PostTranscribe u file # later"
    and absent: "a \<notin> set (map fst (audio ?s))"
    and present: "a \<in> set (map fst (audio ?s1))"
    and later: "DeleteAudio a \<notin> set later"
    by (simp_all add: created_by_def snd_json_answer)
  have "ref_integrity ?s"
    using ri by (rule ref_integrity_run)
  from handle_creates [OF absent present this] language model
  have "select_segments ?s1 a = inserted (result_segments result)"
    by auto
  moreover from run_keeps_other [OF present later, of e]
  have "select_segments (run e later ?s1) a = select_segments ?s1 a"
    by simp
  moreover from reqs have "run e reqs s0 = run e later ?s1"
    by (simp add: run_append)
  ultimately show ?thesis by simp
qed


subsection \<open>The example run\<close>

lemma uuid_str_0: "uuid_str 0 = ''00000000-0000-0000-0000-000000000000''"
  by code_simp

lemma uuid_str_1: "uuid_str 1 = ''00000000-0000-0000-0000-000000000001''"
  by code_simp

lemma example_language: "fmlookup (config example_env) ''language'' = Some (JStr ''ja'')"
  by (simp add: example_env_def default_config_def fmlookup_of_list)

lemma example_path_0: "path_join UPLOAD_DIR (uuid_str 0 @ ''_'' @ upload_filename example_upload)
   = ''uploads/00000000-0000-0000-0000-000000000000_lesson1.mp3''"
  by (simp add: path_join_def UPLOAD_DIR_def startswith_sep_def endswith_sep_def uuid_str_0
      example_upload_def)

lemma example_written: "bytes_written example_env path data = length data"
  by (simp add: example_env_def)

lemma example_can_open_0: 
  "can_open_wb example_env ''uploads/00000000-0000-0000-0000-000000000000_lesson1.mp3''"
  by (simp add: example_env_def)

lemma example_transcribe_0:
  "transcribe example_env 0 example_upload (init_state Map.empty) =
     (Inr (Status ''ok''),
      \<lparr>audio = [(''00000000-0000-0000-0000-000000000000'',
                 ''00000000-0000-0000-0000-000000000000_lesson1.mp3'', ''lesson1.mp3'')],
       segments = [(''00000000-0000-0000-0000-000000000000'', 0, 5 / 2, ''konnichiwa''),
                   (''00000000-0000-0000-0000-000000000000'', 5 / 2, 5, ''genki desu ka'')],
       files = [''uploads/00000000-0000-0000-0000-000000000000_lesson1.mp3'' \<mapsto> ''RIFF'']\<rparr>)"
  unfolding transcribe_def Let_def example_path_0
  by (simp add: example_can_open_0 example_language example_written)
   (simp add: example_env_def init_state_def uuid_str_0 example_upload_def example_segments_def
      as_dict_def)

lemma example_state_1:
  "snd (transcribe example_env 0 example_upload (init_state Map.empty)) =
      \<lparr>audio = [(''00000000-0000-0000-0000-000000000000'',
                 ''00000000-0000-0000-0000-000000000000_lesson1.mp3'', ''lesson1.mp3'')],
       segments = [(''00000000-0000-0000-0000-000000000000'', 0, 5 / 2, ''konnichiwa''),
                   (''00000000-0000-0000-0000-000000000000'', 5 / 2, 5, ''genki desu ka'')],
       files = [''uploads/00000000-0000-0000-0000-000000000000_lesson1.mp3'' \<mapsto> ''RIFF'']\<rparr>"
  by (simp add: example_transcribe_0)

lemma example_collaborator:
  "model_transcribe example_env fs path language = Inr (Some (map as_dict example_segments))"
  by (simp add: example_env_def)

lemma example_path_1: "path_join UPLOAD_DIR (uuid_str 1 @ ''_'' @ upload_filename example_upload)
   = ''uploads/00000000-0000-0000-0000-000000000001_lesson1.mp3''"
  by (simp add: path_join_def UPLOAD_DIR_def startswith_sep_def endswith_sep_def uuid_str_1
      example_upload_def)

lemma example_can_open_1:
  "can_open_wb example_env ''uploads/00000000-0000-0000-0000-000000000001_lesson1.mp3''"
  by (simp add: example_env_def)

lemma example_state_2:
  "run example_env [PostTranscribe 0 example_upload, PostTranscribe 1 example_upload]
     (init_state Map.empty) =
      \<lparr>audio = [(''00000000-0000-0000-0000-000000000000'',
                 ''00000000-0000-0000-0000-000000000000_lesson1.mp3'', ''lesson1.mp3''),
                (''00000000-0000-0000-0000-000000000001'',
                 ''00000000-0000-0000-0000-000000000001_lesson1.mp3'', ''lesson1.mp3'')],
       segments = [(''00000000-0000-0000-0000-000000000000'', 0, 5 / 2, ''konnichiwa''),
                   (''00000000-0000-0000-0000-000000000000'', 5 / 2, 5, ''genki desu ka''),
                   (''00000000-0000-0000-0000-000000000001'', 0, 5 / 2, ''konnichiwa''),
                   (''00000000-0000-0000-0000-000000000001'', 5 / 2, 5, ''genki desu ka'')],
       files = [''uploads/00000000-0000-0000-0000-000000000000_lesson1.mp3'' \<mapsto> ''RIFF'',
                ''uploads/00000000-0000-0000-0000-000000000001_lesson1.mp3'' \<mapsto> ''RIFF'']\<rparr>"
  unfolding run.simps handle.simps snd_json_answer example_state_1
  unfolding transcribe_def Let_def example_path_1
  by (simp add: example_can_open_1 example_language example_collaborator example_written)
    (simp add: uuid_str_1 example_upload_def example_segments_def as_dict_def)

lemma example_detail_1:
  "audio_data ''00000000-0000-0000-0000-000000000001''
     (run example_env [PostTranscribe 0 example_upload, PostTranscribe 1 example_upload]
       (init_state Map.empty)) =
   Inr (AudioDetail ''/audio/00000000-0000-0000-0000-000000000001_lesson1.mp3''
         [(0, 5 / 2, ''konnichiwa''), (5 / 2, 5, ''genki desu ka'')])"
  unfolding example_state_2
  by (simp add: audio_data_def select_filename_def select_segments_def fetchone_def)

lemma noisy_path_0: "path_join UPLOAD_DIR (uuid_str 0 @ ''_'' @ upload_filename noisy_upload)
   = ''uploads/00000000-0000-0000-0000-000000000000_noise.mp3''"
  by (simp add: path_join_def UPLOAD_DIR_def startswith_sep_def endswith_sep_def uuid_str_0
      noisy_upload_def)

lemma mixed_facts:
  "can_open_wb mixed_env path = (length (split_sep path) = 2)"
  "bytes_written mixed_env path data = length data"
  "fmlookup (config mixed_env) ''language'' = Some (JStr ''ja'')"
  "model_transcribe mixed_env fs path language =
     (if fs path = Some ''noise'' then Inr (Some (map as_dict unsorted_segments))
      else Inr (Some (map as_dict example_segments)))"
  by (simp_all add: mixed_env_def example_env_def default_config_def fmlookup_of_list)

lemma mixed_state_1:
  "run mixed_env [PostTranscribe 0 noisy_upload] (init_state Map.empty) =
      \<lparr>audio = [(''00000000-0000-0000-0000-000000000000'',
                 ''00000000-0000-0000-0000-000000000000_noise.mp3'', ''noise.mp3'')],
       segments = [(''00000000-0000-0000-0000-000000000000'', 5, 6, ''b''),
                   (''00000000-0000-0000-0000-000000000000'', 0, 1, ''a'')],
       files = [''uploads/00000000-0000-0000-0000-000000000000_noise.mp3'' \<mapsto> ''noise'']\<rparr>"
  unfolding run.simps handle.simps snd_json_answer
  unfolding transcribe_def Let_def noisy_path_0
  by (simp add: mixed_facts)
    (simp add: init_state_def uuid_str_0 noisy_upload_def unsorted_segments_def as_dict_def)

lemma mixed_can_open_1:
  "can_open_wb mixed_env ''uploads/00000000-0000-0000-0000-000000000001_lesson1.mp3''"
  by (simp add: mixed_facts)

lemma mixed_collaborator:
  "data \<noteq> ''noise'' \<Longrightarrow>
   model_transcribe mixed_env (fs(path \<mapsto> data)) path language =
     Inr (Some (map as_dict example_segments))"
  by (simp add: mixed_facts)

lemma example_bytes: "upload_bytes example_upload = ''RIFF''" "upload_filename example_upload = ''lesson1.mp3''"
  by (simp_all add: example_upload_def)

lemma mixed_transcribe_1:
  "snd (transcribe mixed_env 1 example_upload
         (run mixed_env [PostTranscribe 0 noisy_upload] (init_state Map.empty))) =
      \<lparr>audio = [(''00000000-0000-0000-0000-000000000000'',
                 ''00000000-0000-0000-0000-000000000000_noise.mp3'', ''noise.mp3''),
                (''00000000-0000-0000-0000-000000000001'',
                 ''00000000-0000-0000-0000-000000000001_lesson1.mp3'', ''lesson1.mp3'')],
       segments = [(''00000000-0000-0000-0000-000000000000'', 5, 6, ''b''),
                   (''00000000-0000-0000-0000-000000000000'', 0, 1, ''a''),
                   (''00000000-0000-0000-0000-000000000001'', 0, 5 / 2, ''konnichiwa''),
                   (''00000000-0000-0000-0000-000000000001'', 5 / 2, 5, ''genki desu ka'')],
       files = [''uploads/00000000-0000-0000-0000-000000000000_noise.mp3'' \<mapsto> ''noise'',
                ''uploads/00000000-0000-0000-0000-000000000001_lesson1.mp3'' \<mapsto> ''RIFF'']\<rparr>"
  unfolding mixed_state_1
  unfolding transcribe_def Let_def example_path_1
  unfolding example_bytes
  by (simp add: mixed_can_open_1 mixed_facts(2,3) mixed_collaborator)
    (simp add: uuid_str_1 example_segments_def as_dict_def)

lemma mixed_state_2:
  "run mixed_env [PostTranscribe 0 noisy_upload, PostTranscribe 1 example_upload]
     (init_state Map.empty) =
   snd (transcribe mixed_env 1 example_upload
         (run mixed_env [PostTranscribe 0 noisy_upload] (init_state Map.empty)))"
  by (simp add: snd_json_answer)

lemma mixed_detail_1:
  "audio_data ''00000000-0000-0000-0000-000000000001''
     (run mixed_env [PostTranscribe 0 noisy_upload, PostTranscribe 1 example_upload]
       (init_state Map.empty)) =
   Inr (AudioDetail ''/audio/00000000-0000-0000-0000-000000000001_lesson1.mp3''
         [(0, 5 / 2, ''konnichiwa''), (5 / 2, 5, ''genki desu ka'')])"
  unfolding mixed_state_2 mixed_transcribe_1
  by (simp add: audio_data_def select_filename_def select_segments_def fetchone_def)

lemma mixed_detail_0:
  "audio_data ''00000000-0000-0000-0000-000000000000''
     (run mixed_env [PostTranscribe 0 noisy_upload, PostTranscribe 1 example_upload]
       (init_state Map.empty)) =
   Inr (AudioDetail ''/audio/00000000-0000-0000-0000-000000000000_noise.mp3''
         [(5, 6, ''b''), (0, 1, ''a'')])"
  unfolding mixed_state_2 mixed_transcribe_1
  by (simp add: audio_data_def select_filename_def select_segments_def fetchone_def)

lemma mixed_created_1:
  "created_by mixed_env (init_state Map.empty) ''00000000-0000-0000-0000-000000000001''
     [PostTranscribe 0 noisy_upload, PostTranscribe 1 example_upload]
     [PostTranscribe 0 noisy_upload] 1 example_upload []"
  unfolding created_by_def
  unfolding mixed_transcribe_1
  unfolding mixed_state_1
  by (simp add: uuid_str_1)

lemma broken_transcribe_0:
  "transcribe broken_env 0 example_upload (init_state Map.empty) =
     (Inl KeyError,
      \<lparr>audio = [(''00000000-0000-0000-0000-000000000000'',
                 ''00000000-0000-0000-0000-000000000000_lesson1.mp3'', ''lesson1.mp3'')],
       segments = [(''00000000-0000-0000-0000-000000000000'', 0, 5 / 2, ''konnichiwa'')],
       files = [''uploads/00000000-0000-0000-0000-000000000000_lesson1.mp3'' \<mapsto> ''RIFF'']\<rparr>)"
  unfolding transcribe_def Let_def example_path_0
  by (simp add: broken_env_def example_can_open_0 example_language example_written)
   (simp add: example_env_def init_state_def uuid_str_0 example_upload_def broken_segments_def)


section \<open>Referential integrity\<close>

text \<open>
  Claim C9. Referential integrity is an invariant: it holds of the state after any
  sequence of requests from the empty store, because every request preserves it.
  \<^verbatim>\<open>transcribe\<close> inserts the audio row before it reads the segments and inserts their
  rows one by one, so the invariant also holds of the rows that stay when the handler
  ends in an exception in the middle; \<^verbatim>\<open>delete_audio\<close> deletes the segment rows with the
  audio row; the other handlers leave the state as it is.
\<close>

theorem referential_integrity_invariant:
  "ref_integrity (run e reqs (init_state fs))
   \<and> (ref_integrity s \<longrightarrow> ref_integrity (snd (handle e r s)))"
  by (simp add: ref_integrity_run ref_integrity_init ref_integrity_handle)

theorem referential_integrity_invariant_witness:
  "fst (transcribe broken_env 0 example_upload (init_state Map.empty)) = Inl KeyError
   \<and> audio (run broken_env [PostTranscribe 0 example_upload] (init_state Map.empty)) =
       [(''00000000-0000-0000-0000-000000000000'',
         ''00000000-0000-0000-0000-000000000000_lesson1.mp3'', ''lesson1.mp3'')]
   \<and> segments (run broken_env [PostTranscribe 0 example_upload] (init_state Map.empty)) =
       [(''00000000-0000-0000-0000-000000000000'', 0, 5 / 2, ''konnichiwa'')]
   \<and> ref_integrity (run broken_env [PostTranscribe 0 example_upload] (init_state Map.empty))
   \<and> ref_integrity (run example_env [PostTranscribe 0 example_upload] (init_state Map.empty))
   \<and> segments (run example_env [PostTranscribe 0 example_upload] (init_state Map.empty)) \<noteq> []"
  using referential_integrity_invariant
    [of broken_env "[PostTranscribe 0 example_upload]" Map.empty]
    referential_integrity_invariant
    [of example_env "[PostTranscribe 0 example_upload]" Map.empty]
  by (simp add: example_transcribe_0 broken_transcribe_0 snd_json_answer)

section \<open>Detail of an unknown id\<close>

text \<open>
  Claim C1. For an id with no row in \<^verbatim>\<open>audio\<close>, \<^verbatim>\<open>audio_data\<close> does not answer
  not-found: \<^verbatim>\<open>cursor.fetchone()\<close> is None, subscripting it raises TypeError, and the
  framework answers 500. On the empty store the request for the id \<^verbatim>\<open>no-such-id\<close> ends
  so, while \<^verbatim>\<open>delete_audio\<close>, which tests the fetched row, answers \<^verbatim>\<open>not_found\<close> for
  the same id.
\<close>

theorem audio_data_unknown_id_raises:
  "audio_data ''no-such-id'' (init_state Map.empty) = Inl TypeError
   \<and> http_status (audio_data ''no-such-id'' (init_state Map.empty)) = 500
   \<and> fst (delete_audio ''no-such-id'' (init_state Map.empty)) = Inr (Status ''not_found'')"
  by (simp add: audio_data_def delete_audio_def select_filename_def fetchone_def init_state_def
      http_status_def)

section \<open>Upload\<close>

text \<open>
  Claim C4. After a successful \<^verbatim>\<open>transcribe\<close> of a file with original name \<open>N\<close>, the
  library is the one before followed by the new id paired with \<open>N\<close>; the detail of the
  new id has the audio_url \<^verbatim>\<open>/audio/\<close> followed by the stored name, which is the
  generated id, an underscore and \<open>N\<close>; and the file of that name in the uploads
  directory holds the uploaded bytes.
\<close>

theorem upload_listed_and_named:
  assumes "fst (transcribe e u file s) = Inr r"
  shows "library (snd (transcribe e u file s)) =
           Inr (LibraryList (map (\<lambda>(i, f, n). (i, n)) (audio s)
                 @ [(uuid_str u, upload_filename file)]))
    \<and> audio_data (uuid_str u) (snd (transcribe e u file s)) =
           Inr (AudioDetail (''/audio/'' @ uuid_str u @ ''_'' @ upload_filename file)
                 (select_segments (snd (transcribe e u file s)) (uuid_str u)))
    \<and> files (snd (transcribe e u file s))
           (path_join UPLOAD_DIR (uuid_str u @ ''_'' @ upload_filename file)) =
         Some (upload_bytes file)"
proof -
  from transcribe_success [OF assms] obtain language segs where
    fresh: "uuid_str u \<notin> set (map fst (audio s))"
    and au: "audio (snd (transcribe e u file s)) =
         audio s @ [(uuid_str u, uuid_str u @ ''_'' @ upload_filename file, upload_filename file)]"
    and fi: "files (snd (transcribe e u file s)) =
         (files s)(''uploads/'' @ uuid_str u @ ''_'' @ upload_filename file \<mapsto> upload_bytes file)"
    by blast
  have "select_filename (snd (transcribe e u file s)) (uuid_str u) =
      [uuid_str u @ ''_'' @ upload_filename file]"
    using select_filename_absent [OF fresh]
    by (simp add: select_filename_def au)
  then have "audio_data (uuid_str u) (snd (transcribe e u file s)) =
           Inr (AudioDetail (''/audio/'' @ uuid_str u @ ''_'' @ upload_filename file)
                 (select_segments (snd (transcribe e u file s)) (uuid_str u)))"
    by (simp add: audio_data_def fetchone_def)
  moreover have "library (snd (transcribe e u file s)) =
           Inr (LibraryList (map (\<lambda>(i, f, n). (i, n)) (audio s)
                 @ [(uuid_str u, upload_filename file)]))"
    by (simp add: library_def au)
  moreover have "files (snd (transcribe e u file s))
           (path_join UPLOAD_DIR (uuid_str u @ ''_'' @ upload_filename file)) =
         Some (upload_bytes file)"
    by (simp add: fi stored_path)
  ultimately show ?thesis by simp
qed

theorem upload_listed_and_named_witness:
  "fst (transcribe example_env 0 example_upload (init_state Map.empty)) = Inr (Status ''ok'')
   \<and> library (snd (transcribe example_env 0 example_upload (init_state Map.empty))) =
       Inr (LibraryList [(''00000000-0000-0000-0000-000000000000'', ''lesson1.mp3'')])
   \<and> (\<exists>segs. audio_data ''00000000-0000-0000-0000-000000000000''
         (snd (transcribe example_env 0 example_upload (init_state Map.empty))) =
       Inr (AudioDetail ''/audio/00000000-0000-0000-0000-000000000000_lesson1.mp3'' segs))"
proof -
  have ok: "fst (transcribe example_env 0 example_upload (init_state Map.empty))
      = Inr (Status ''ok'')"
    by (simp add: example_transcribe_0)
  from upload_listed_and_named [OF ok] ok show ?thesis
    by (simp add: uuid_str_0 example_upload_def init_state_def)
qed

text \<open>
  Claim C5. When the uploaded bytes cannot be saved, because opening the file for
  writing fails or because writing it stops short, \<^verbatim>\<open>transcribe\<close> ends in that
  exception and no audio row and no segment row has been inserted; when the file cannot
  even be opened, the whole state is the one before.
\<close>

theorem save_failure_leaves_store:
  assumes "bytes_written e (path_join UPLOAD_DIR (uuid_str u @ ''_'' @ upload_filename file))
             (upload_bytes file) < length (upload_bytes file)
           \<or> \<not> can_open_wb e (path_join UPLOAD_DIR (uuid_str u @ ''_'' @ upload_filename file))"
  shows "fst (transcribe e u file s) = Inl OSError
    \<and> audio (snd (transcribe e u file s)) = audio s
    \<and> segments (snd (transcribe e u file s)) = segments s
    \<and> (if can_open_wb e (path_join UPLOAD_DIR (uuid_str u @ ''_'' @ upload_filename file))
        then files (snd (transcribe e u file s)) =
          (files s)(path_join UPLOAD_DIR (uuid_str u @ ''_'' @ upload_filename file) \<mapsto>
            take (bytes_written e (path_join UPLOAD_DIR (uuid_str u @ ''_'' @ upload_filename file))
                   (upload_bytes file)) (upload_bytes file))
        else snd (transcribe e u file s) = s)"
  using assms by (auto simp: transcribe_def Let_def)

theorem save_failure_leaves_store_witness:
  "\<not> can_open_wb example_env
       (path_join UPLOAD_DIR (uuid_str 0 @ ''_'' @ upload_filename (UploadFile ''a/b.mp3'' ''RIFF'')))
   \<and> fst (transcribe example_env 0 (UploadFile ''a/b.mp3'' ''RIFF'') (init_state Map.empty))
       = Inl OSError
   \<and> snd (transcribe example_env 0 (UploadFile ''a/b.mp3'' ''RIFF'') (init_state Map.empty))
       = init_state Map.empty
   \<and> bytes_written (example_env\<lparr>bytes_written := \<lambda>path data. 2\<rparr>)
        (path_join UPLOAD_DIR (uuid_str 0 @ ''_'' @ upload_filename example_upload))
        (upload_bytes example_upload) < length (upload_bytes example_upload)
   \<and> fst (transcribe (example_env\<lparr>bytes_written := \<lambda>path data. 2\<rparr>) 0 example_upload
        (init_state Map.empty)) = Inl OSError
   \<and> audio (snd (transcribe (example_env\<lparr>bytes_written := \<lambda>path data. 2\<rparr>) 0 example_upload
        (init_state Map.empty))) = []"
proof -
  have h: "\<not> can_open_wb example_env
       (path_join UPLOAD_DIR (uuid_str 0 @ ''_'' @ upload_filename (UploadFile ''a/b.mp3'' ''RIFF'')))"
    by (simp add: example_env_def path_join_def UPLOAD_DIR_def startswith_sep_def endswith_sep_def
        uuid_str_0)
  have k: "bytes_written (example_env\<lparr>bytes_written := \<lambda>path data. 2\<rparr>)
        (path_join UPLOAD_DIR (uuid_str 0 @ ''_'' @ upload_filename example_upload))
        (upload_bytes example_upload) < length (upload_bytes example_upload)"
    by (simp add: example_upload_def)
  from h save_failure_leaves_store [OF disjI2, OF h, of "init_state Map.empty"]
  have "fst (transcribe example_env 0 (UploadFile ''a/b.mp3'' ''RIFF'') (init_state Map.empty))
       = Inl OSError
     \<and> snd (transcribe example_env 0 (UploadFile ''a/b.mp3'' ''RIFF'') (init_state Map.empty))
       = init_state Map.empty"
    by simp
  moreover from save_failure_leaves_store [OF disjI1, OF k, of "init_state Map.empty"]
  have "fst (transcribe (example_env\<lparr>bytes_written := \<lambda>path data. 2\<rparr>) 0 example_upload
        (init_state Map.empty)) = Inl OSError
     \<and> audio (snd (transcribe (example_env\<lparr>bytes_written := \<lambda>path data. 2\<rparr>) 0 example_upload
        (init_state Map.empty))) = []"
    by (simp add: init_state_def)
  ultimately show ?thesis using h k by blast
qed

section \<open>Serving files\<close>

text \<open>
  Claim C10. \<^verbatim>\<open>get_audio\<close> answers, for every filename, with the file at the join of
  the uploads directory and the filename, unchecked. There is a filename with a
  parent-directory component, even one without a separator, whose joined path resolves
  outside the uploads directory; and for \<^verbatim>\<open>../app.db\<close> the joined path resolves to the
  database file.
\<close>

theorem get_audio_unvalidated_join:
  "get_audio f = Inr (FileResponse (path_join UPLOAD_DIR f))
   \<and> (\<exists>g. CHR ''/'' \<notin> set g \<and> ''..'' \<in> set (split_sep g)
         \<and> \<not> inside_upload_dir (path_join UPLOAD_DIR g))
   \<and> get_audio ''../app.db'' = Inr (FileResponse ''uploads/../app.db'')
   \<and> normpath ''uploads/../app.db'' = [DB_PATH]
   \<and> \<not> inside_upload_dir ''uploads/../app.db''"
proof -
  have "CHR ''/'' \<notin> set ''..'' \<and> ''..'' \<in> set (split_sep ''..'')
      \<and> \<not> inside_upload_dir (path_join UPLOAD_DIR ''..'')"
    by (simp add: inside_upload_dir_def path_join_def UPLOAD_DIR_def startswith_sep_def
        endswith_sep_def normpath_def)
  then have "\<exists>g. CHR ''/'' \<notin> set g \<and> ''..'' \<in> set (split_sep g)
         \<and> \<not> inside_upload_dir (path_join UPLOAD_DIR g)"
    by blast
  moreover have "normpath ''uploads/../app.db'' = [DB_PATH]"
    by (simp add: normpath_def startswith_sep_def DB_PATH_def)
  moreover have "\<not> inside_upload_dir ''uploads/../app.db''"
    by (simp add: inside_upload_dir_def normpath_def startswith_sep_def UPLOAD_DIR_def)
  moreover have "get_audio ''../app.db'' = Inr (FileResponse ''uploads/../app.db'')"
    by (simp add: get_audio_def path_join_def UPLOAD_DIR_def startswith_sep_def endswith_sep_def)
  ultimately show ?thesis
    by (simp add: get_audio_def)
qed

theorem get_audio_unvalidated_join_witness:
  "get_audio ''lesson1.mp3'' = Inr (FileResponse ''uploads/lesson1.mp3'')
   \<and> inside_upload_dir ''uploads/lesson1.mp3''"
  using get_audio_unvalidated_join [of "''lesson1.mp3''"]
  by (simp add: path_join_def UPLOAD_DIR_def startswith_sep_def endswith_sep_def
      inside_upload_dir_def normpath_def)


section \<open>Deletion\<close>

text \<open>
  Claim C3. \<^verbatim>\<open>delete_audio\<close> returns \<^verbatim>\<open>{"status": "deleted"}\<close> when the id has a row
  and \<^verbatim>\<open>{"status": "not_found"}\<close>, with the state unchanged, when it has none; it
  returns in both cases, so the answer is 200; deleting the same id again returns
  \<^verbatim>\<open>not_found\<close> and changes nothing; and when the row is present but its file is
  already missing, the handler still returns \<^verbatim>\<open>deleted\<close> and leaves the files as they
  are.
\<close>

theorem delete_audio_idempotent:
  "(a \<in> set (map fst (audio s)) \<longrightarrow> fst (delete_audio a s) = Inr (Status ''deleted''))
   \<and> (a \<notin> set (map fst (audio s)) \<longrightarrow> delete_audio a s = (Inr (Status ''not_found''), s))
   \<and> http_status (fst (delete_audio a s)) = 200
   \<and> delete_audio a (snd (delete_audio a s)) = (Inr (Status ''not_found''), snd (delete_audio a s))
   \<and> (\<forall>f. fetchone (select_filename s a) = Some f \<and> files s (path_join UPLOAD_DIR f) = None
        \<longrightarrow> fst (delete_audio a s) = Inr (Status ''deleted'')
            \<and> files (snd (delete_audio a s)) = files s)"
proof -
  have present: "fst (delete_audio a s) = Inr (Status ''deleted'')"
    if "a \<in> set (map fst (audio s))"
    using delete_audio_present [OF that] by blast
  have absent: "delete_audio a s = (Inr (Status ''not_found''), s)"
    if "a \<notin> set (map fst (audio s))"
    using that by (rule delete_audio_absent)
  have status: "http_status (fst (delete_audio a s)) = 200"
    using present absent by (cases "a \<in> set (map fst (audio s))") (simp_all add: http_status_def)
  have again: "delete_audio a (snd (delete_audio a s)) =
      (Inr (Status ''not_found''), snd (delete_audio a s))"
    using ids_after_delete by (rule delete_audio_absent)
  have missing: "fst (delete_audio a s) = Inr (Status ''deleted'')
      \<and> files (snd (delete_audio a s)) = files s"
    if "fetchone (select_filename s a) = Some f" "files s (path_join UPLOAD_DIR f) = None" for f
    using that by (simp add: delete_audio_def Let_def domIff)
  from present absent status again missing show ?thesis by blast
qed

theorem delete_audio_idempotent_witness:
  "''00000000-0000-0000-0000-000000000000'' \<in> set (map fst (audio
      (snd (transcribe example_env 0 example_upload (init_state Map.empty)))))
   \<and> fst (delete_audio ''00000000-0000-0000-0000-000000000000''
        (snd (transcribe example_env 0 example_upload (init_state Map.empty))))
       = Inr (Status ''deleted'')
   \<and> ''x'' \<notin> set (map fst (audio (init_state Map.empty)))
   \<and> delete_audio ''x'' (init_state Map.empty) = (Inr (Status ''not_found''), init_state Map.empty)
   \<and> fetchone (select_filename \<lparr>audio = [(''a'', ''a_b'', ''b'')], segments = [], files = Map.empty\<rparr> ''a'')
       = Some ''a_b''
   \<and> files \<lparr>audio = [(''a'', ''a_b'', ''b'')], segments = [], files = Map.empty\<rparr>
        (path_join UPLOAD_DIR ''a_b'') = None
   \<and> fst (delete_audio ''a'' \<lparr>audio = [(''a'', ''a_b'', ''b'')], segments = [], files = Map.empty\<rparr>)
       = Inr (Status ''deleted'')"
proof -
  have h1: "''00000000-0000-0000-0000-000000000000'' \<in> set (map fst (audio
      (snd (transcribe example_env 0 example_upload (init_state Map.empty)))))"
    by (simp add: example_state_1)
  have h2: "''x'' \<notin> set (map fst (audio (init_state Map.empty)))"
    by (simp add: init_state_def)
  have h3: "fetchone (select_filename \<lparr>audio = [(''a'', ''a_b'', ''b'')], segments = [], files = Map.empty\<rparr> ''a'')
       = Some ''a_b''
     \<and> files \<lparr>audio = [(''a'', ''a_b'', ''b'')], segments = [], files = Map.empty\<rparr>
        (path_join UPLOAD_DIR ''a_b'') = None"
    by (simp add: select_filename_def fetchone_def)
  from h1 h2 h3
    delete_audio_idempotent [of "''00000000-0000-0000-0000-000000000000''"
      "snd (transcribe example_env 0 example_upload (init_state Map.empty))"]
    delete_audio_idempotent [of "''x''" "init_state Map.empty"]
    delete_audio_idempotent [of "''a''"
      "\<lparr>audio = [(''a'', ''a_b'', ''b'')], segments = [], files = Map.empty\<rparr>"]
  show ?thesis by blast
qed


section \<open>Round trip of the segments\<close>

text \<open>
  Claim C2. Take any state the application can reach and a successful \<^verbatim>\<open>transcribe\<close>
  in it, for which the collaborator returned the segments \<open>segs\<close>, each with its three
  entries. Then after any
  further requests that do not delete the new id, \<^verbatim>\<open>audio_data\<close> of the new id returns
  exactly \<open>segs\<close>, in order, with nothing lost, added or repeated; in particular their
  number is the number the collaborator produced.
\<close>

theorem segments_round_trip:
  assumes ok: "fst (transcribe e u file (run e before (init_state fs))) = Inr r"
    and language: "fmlookup (config e) ''language'' = Some language"
    and collaborator: "model_transcribe e
        ((files (run e before (init_state fs)))
           (path_join UPLOAD_DIR (uuid_str u @ ''_'' @ upload_filename file) \<mapsto> upload_bytes file))
        (path_join UPLOAD_DIR (uuid_str u @ ''_'' @ upload_filename file)) language
          = Inr (Some (map as_dict segs))"
    and later: "DeleteAudio (uuid_str u) \<notin> set later"
  shows "audio_data (uuid_str u)
           (run e later (snd (transcribe e u file (run e before (init_state fs))))) =
         Inr (AudioDetail (''/audio/'' @ uuid_str u @ ''_'' @ upload_filename file) segs)
    \<and> length (select_segments
          (run e later (snd (transcribe e u file (run e before (init_state fs))))) (uuid_str u))
        = length segs"
proof -
  let ?s = "run e before (init_state fs)"
  let ?s' = "snd (transcribe e u file ?s)"
  have ri: "ref_integrity ?s"
    by (simp add: ref_integrity_run ref_integrity_init)
  from transcribe_success [OF ok] language collaborator have
    fresh: "uuid_str u \<notin> set (map fst (audio ?s))"
    and au: "audio ?s' =
         audio ?s @ [(uuid_str u, uuid_str u @ ''_'' @ upload_filename file, upload_filename file)]"
    and se: "segments ?s' = segments ?s @ map (\<lambda>(st, en, tx). (uuid_str u, st, en, tx)) segs"
    by (auto simp: stored_path dest: as_dict_inj)
  have fn: "select_filename ?s' (uuid_str u) = [uuid_str u @ ''_'' @ upload_filename file]"
    by (simp add: select_filename_inserted [OF au] select_filename_absent [OF fresh])
  have sg: "select_segments ?s' (uuid_str u) = segs"
    by (simp add: select_segments_inserted [OF se] select_segments_absent [OF ri fresh])
  from fn have "uuid_str u \<in> set (map fst (audio ?s'))"
    using present_iff_select [of "uuid_str u" ?s'] by simp
  from run_keeps_other [OF this later, of e] fn sg
  have "select_filename (run e later ?s') (uuid_str u) = [uuid_str u @ ''_'' @ upload_filename file]"
    and "select_segments (run e later ?s') (uuid_str u) = segs"
    by simp_all
  then show ?thesis
    by (simp add: audio_data_def fetchone_def)
qed


theorem segments_round_trip_witness:
  "fst (transcribe example_env 0 example_upload (run example_env [] (init_state Map.empty)))
     = Inr (Status ''ok'')
   \<and> fmlookup (config example_env) ''language'' = Some (JStr ''ja'')
   \<and> model_transcribe example_env
        ((files (run example_env [] (init_state Map.empty)))
           (path_join UPLOAD_DIR (uuid_str 0 @ ''_'' @ upload_filename example_upload)
              \<mapsto> upload_bytes example_upload))
        (path_join UPLOAD_DIR (uuid_str 0 @ ''_'' @ upload_filename example_upload)) (JStr ''ja'')
      = Inr (Some (map as_dict example_segments))
   \<and> DeleteAudio (uuid_str 0) \<notin> set [PostTranscribe 1 example_upload, GetLibrary]
   \<and> audio_data (uuid_str 0)
        (run example_env [PostTranscribe 1 example_upload, GetLibrary]
          (snd (transcribe example_env 0 example_upload
                 (run example_env [] (init_state Map.empty))))) =
      Inr (AudioDetail (''/audio/'' @ uuid_str 0 @ ''_'' @ upload_filename example_upload)
            example_segments)"
proof -
  have ok: "fst (transcribe example_env 0 example_upload
      (run example_env [] (init_state Map.empty))) = Inr (Status ''ok'')"
    by (simp add: example_transcribe_0)
  have collaborator: "model_transcribe example_env
        ((files (run example_env [] (init_state Map.empty)))
           (path_join UPLOAD_DIR (uuid_str 0 @ ''_'' @ upload_filename example_upload)
              \<mapsto> upload_bytes example_upload))
        (path_join UPLOAD_DIR (uuid_str 0 @ ''_'' @ upload_filename example_upload)) (JStr ''ja'')
      = Inr (Some (map as_dict example_segments))"
    by (simp add: example_env_def)
  have later: "DeleteAudio (uuid_str 0) \<notin> set [PostTranscribe 1 example_upload, GetLibrary]"
    by simp
  from segments_round_trip [OF ok example_language collaborator later]
    ok example_language collaborator later
  show ?thesis by simp
qed


section \<open>Order of the segments\<close>

text \<open>
  Claim C6. Take any state the application can reach and any id for which
  \<^verbatim>\<open>audio_data\<close> returns segments. Then the history has an upload that created the
  audio of that id; and for the upload that created it, the segments returned are those
  inserted from the result the collaborator returned to that upload, in their order, so
  that their starts are non-decreasing whenever the starts of that result are. Nothing
  is asked of what the collaborator returned to any other upload.
\<close>

theorem starts_non_decreasing:
  assumes detail: "audio_data a (run e reqs (init_state fs)) = Inr (AudioDetail url segs)"
  shows "(\<exists>before u file later. created_by e (init_state fs) a reqs before u file later)
    \<and> (\<forall>before u file later language result.
          created_by e (init_state fs) a reqs before u file later
          \<and> fmlookup (config e) ''language'' = Some language
          \<and> model_transcribe e
               ((files (run e before (init_state fs)))
                  (path_join UPLOAD_DIR (uuid_str u @ ''_'' @ upload_filename file)
                     \<mapsto> upload_bytes file))
               (path_join UPLOAD_DIR (uuid_str u @ ''_'' @ upload_filename file)) language
             = Inr result
          \<longrightarrow> segs = inserted (result_segments result)
              \<and> (sorted (starts (result_segments result)) \<longrightarrow> sorted (map fst segs)))"
proof -
  from detail have known: "select_filename (run e reqs (init_state fs)) a \<noteq> []"
    and segs: "segs = select_segments (run e reqs (init_state fs)) a"
    by (auto simp: audio_data_def fetchone_def split: option.splits list.splits)
  from known have "a \<in> set (map fst (audio (run e reqs (init_state fs))))"
    using present_iff_select [of a "run e reqs (init_state fs)"] by simp
  then have "\<exists>before u file later. created_by e (init_state fs) a reqs before u file later"
    by (rule created_by_exists)
  moreover have "segs = inserted (result_segments result)
      \<and> (sorted (starts (result_segments result)) \<longrightarrow> sorted (map fst segs))"
    if "created_by e (init_state fs) a reqs before u upl later"
      and "fmlookup (config e) ''language'' = Some language"
      and "model_transcribe e
               ((files (run e before (init_state fs)))
                  (path_join UPLOAD_DIR (uuid_str u @ ''_'' @ upload_filename upl)
                     \<mapsto> upload_bytes upl))
               (path_join UPLOAD_DIR (uuid_str u @ ''_'' @ upload_filename upl)) language
             = Inr result"
    for before u upl later language result
    using created_by_segments [OF that(1) ref_integrity_init that(2,3)] segs
    by (simp add: sorted_inserted)
  ultimately show ?thesis by blast
qed

theorem starts_non_decreasing_witness:
  "audio_data ''00000000-0000-0000-0000-000000000001''
     (run mixed_env [PostTranscribe 0 noisy_upload, PostTranscribe 1 example_upload]
       (init_state Map.empty)) =
     Inr (AudioDetail ''/audio/00000000-0000-0000-0000-000000000001_lesson1.mp3''
         [(0, 5 / 2, ''konnichiwa''), (5 / 2, 5, ''genki desu ka'')])
   \<and> audio_data ''00000000-0000-0000-0000-000000000000''
     (run mixed_env [PostTranscribe 0 noisy_upload, PostTranscribe 1 example_upload]
       (init_state Map.empty)) =
     Inr (AudioDetail ''/audio/00000000-0000-0000-0000-000000000000_noise.mp3''
         [(5, 6, ''b''), (0, 1, ''a'')])
   \<and> created_by mixed_env (init_state Map.empty) ''00000000-0000-0000-0000-000000000001''
       [PostTranscribe 0 noisy_upload, PostTranscribe 1 example_upload]
       [PostTranscribe 0 noisy_upload] 1 example_upload []
   \<and> sorted (starts (result_segments (Some (map as_dict example_segments))))
   \<and> sorted (map fst [(0 :: real, 5 / 2 :: real, ''konnichiwa''), (5 / 2, 5, ''genki desu ka'')])"
proof -
  have model: "model_transcribe mixed_env
       ((files (run mixed_env [PostTranscribe 0 noisy_upload] (init_state Map.empty)))
          (path_join UPLOAD_DIR (uuid_str 1 @ ''_'' @ upload_filename example_upload)
             \<mapsto> upload_bytes example_upload))
       (path_join UPLOAD_DIR (uuid_str 1 @ ''_'' @ upload_filename example_upload)) (JStr ''ja'')
     = Inr (Some (map as_dict example_segments))"
    by (rule mixed_collaborator) (simp add: example_upload_def)
  have result: "sorted (starts (result_segments (Some (map as_dict example_segments))))"
    by (simp add: result_segments_def example_segments_def as_dict_def)
  from starts_non_decreasing [OF mixed_detail_1]
    mixed_created_1 mixed_facts(3) model result
  have "sorted (map fst [(0 :: real, 5 / 2 :: real, ''konnichiwa''), (5 / 2, 5, ''genki desu ka'')])"
    by blast
  with mixed_detail_1 mixed_detail_0 mixed_created_1 result show ?thesis by blast
qed

section \<open>Deletion leaves the other audios alone\<close>

text \<open>
  Claim C7. In every state the application can reach, deleting the id \<open>a\<close> takes away
  exactly the audio rows and the segment rows of \<open>a\<close>, the other rows staying as they
  are and in their order, and of the files it removes the one of the stored name of
  \<open>a\<close> and no other (nothing at all changes when \<open>a\<close> has no row); for every other id
  \<open>b\<close> the detail is the one before and the file of its stored name is untouched.
\<close>

theorem delete_audio_frame:
  assumes "a \<noteq> b"
  shows "audio_data b (snd (delete_audio a (run e reqs (init_state fs)))) =
           audio_data b (run e reqs (init_state fs))
    \<and> audio (snd (delete_audio a (run e reqs (init_state fs)))) =
        filter (\<lambda>(i, f, n). i \<noteq> a) (audio (run e reqs (init_state fs)))
    \<and> segments (snd (delete_audio a (run e reqs (init_state fs)))) =
        filter (\<lambda>(i, st, en, tx). i \<noteq> a) (segments (run e reqs (init_state fs)))
    \<and> (\<forall>f n. (b, f, n) \<in> set (audio (run e reqs (init_state fs))) \<longrightarrow>
          files (snd (delete_audio a (run e reqs (init_state fs)))) (path_join UPLOAD_DIR f) =
          files (run e reqs (init_state fs)) (path_join UPLOAD_DIR f))
    \<and> (\<forall>f n. (a, f, n) \<in> set (audio (run e reqs (init_state fs))) \<longrightarrow>
          files (snd (delete_audio a (run e reqs (init_state fs)))) =
          (files (run e reqs (init_state fs)))(path_join UPLOAD_DIR f := None))
    \<and> (a \<notin> set (map fst (audio (run e reqs (init_state fs)))) \<longrightarrow>
          snd (delete_audio a (run e reqs (init_state fs))) = run e reqs (init_state fs))"
proof -
  let ?s = "run e reqs (init_state fs)"
  have ri: "ref_integrity ?s"
    by (simp add: ref_integrity_run ref_integrity_init)
  have sn: "stored_names ?s"
    by (simp add: stored_names_run stored_names_init)
  from assms have "b \<noteq> a" by simp
  from delete_audio_keeps_other [OF this, of ?s]
  have detail: "audio_data b (snd (delete_audio a ?s)) = audio_data b ?s"
    by (intro audio_data_selects) simp_all
  have kept: "files (snd (delete_audio a ?s)) (path_join UPLOAD_DIR f) =
      files ?s (path_join UPLOAD_DIR f)" if b: "(b, f, n) \<in> set (audio ?s)" for f n
  proof (cases "a \<in> set (map fst (audio ?s))")
    case True
    from delete_audio_present [OF True] obtain fa where
      fa: "fetchone (select_filename ?s a) = Some fa"
      and fi: "files (snd (delete_audio a ?s)) = (files ?s)(path_join UPLOAD_DIR fa := None)"
      by blast
    from fetchone_select_filename [OF fa] obtain na where "(a, fa, na) \<in> set (audio ?s)" ..
    from stored_paths_differ [OF sn this b assms] show ?thesis
      by (simp add: fi)
  next
    case False
    then show ?thesis by (simp add: delete_audio_absent)
  qed
  have di: "distinct (map fst (audio ?s))"
    by (simp add: distinct_ids_run distinct_ids_init)
  have own: "files (snd (delete_audio a ?s)) = (files ?s)(path_join UPLOAD_DIR f := None)"
    if "(a, f, n) \<in> set (audio ?s)" for f n
    using delete_audio_file [OF di that] .
  have absent: "snd (delete_audio a ?s) = ?s" if "a \<notin> set (map fst (audio ?s))"
    using that by (simp add: delete_audio_absent)
  from detail delete_audio_rows [OF ri] kept own absent show ?thesis by blast
qed

theorem delete_audio_frame_witness:
  "''00000000-0000-0000-0000-000000000000'' \<noteq> ''00000000-0000-0000-0000-000000000001''
   \<and> audio_data ''00000000-0000-0000-0000-000000000001''
        (snd (delete_audio ''00000000-0000-0000-0000-000000000000''
          (run example_env [PostTranscribe 0 example_upload, PostTranscribe 1 example_upload]
            (init_state Map.empty)))) =
       Inr (AudioDetail ''/audio/00000000-0000-0000-0000-000000000001_lesson1.mp3''
         [(0, 5 / 2, ''konnichiwa''), (5 / 2, 5, ''genki desu ka'')])
   \<and> files (snd (delete_audio ''00000000-0000-0000-0000-000000000000''
          (run example_env [PostTranscribe 0 example_upload, PostTranscribe 1 example_upload]
            (init_state Map.empty))))
        (path_join UPLOAD_DIR ''00000000-0000-0000-0000-000000000001_lesson1.mp3'') = Some ''RIFF''
   \<and> files (snd (delete_audio ''00000000-0000-0000-0000-000000000000''
          (run example_env [PostTranscribe 0 example_upload, PostTranscribe 1 example_upload]
            (init_state Map.empty))))
        (path_join UPLOAD_DIR ''00000000-0000-0000-0000-000000000000_lesson1.mp3'') = None"
proof -
  have ne: "''00000000-0000-0000-0000-000000000000'' \<noteq> ''00000000-0000-0000-0000-000000000001''"
    by simp
  have row: "(''00000000-0000-0000-0000-000000000001'',
       ''00000000-0000-0000-0000-000000000001_lesson1.mp3'', ''lesson1.mp3'')
     \<in> set (audio (run example_env [PostTranscribe 0 example_upload, PostTranscribe 1 example_upload]
            (init_state Map.empty)))"
    unfolding example_state_2 by simp
  have before: "files (run example_env [PostTranscribe 0 example_upload, PostTranscribe 1 example_upload]
            (init_state Map.empty))
        (path_join UPLOAD_DIR ''00000000-0000-0000-0000-000000000001_lesson1.mp3'') = Some ''RIFF''"
    unfolding example_state_2
    by (simp add: path_join_def UPLOAD_DIR_def startswith_sep_def endswith_sep_def)
  have removed: "files (snd (delete_audio ''00000000-0000-0000-0000-000000000000''
          (run example_env [PostTranscribe 0 example_upload, PostTranscribe 1 example_upload]
            (init_state Map.empty))))
        (path_join UPLOAD_DIR ''00000000-0000-0000-0000-000000000000_lesson1.mp3'') = None"
    unfolding example_state_2
    by (simp add: delete_audio_def select_filename_def fetchone_def Let_def path_join_def
        UPLOAD_DIR_def startswith_sep_def endswith_sep_def)
  note frame = delete_audio_frame [OF ne, of example_env
      "[PostTranscribe 0 example_upload, PostTranscribe 1 example_upload]" Map.empty]
  from frame example_detail_1 have detail: "audio_data ''00000000-0000-0000-0000-000000000001''
        (snd (delete_audio ''00000000-0000-0000-0000-000000000000''
          (run example_env [PostTranscribe 0 example_upload, PostTranscribe 1 example_upload]
            (init_state Map.empty)))) =
       Inr (AudioDetail ''/audio/00000000-0000-0000-0000-000000000001_lesson1.mp3''
         [(0, 5 / 2, ''konnichiwa''), (5 / 2, 5, ''genki desu ka'')])"
    by (simp only:)
  from frame row have "files (snd (delete_audio ''00000000-0000-0000-0000-000000000000''
          (run example_env [PostTranscribe 0 example_upload, PostTranscribe 1 example_upload]
            (init_state Map.empty))))
        (path_join UPLOAD_DIR ''00000000-0000-0000-0000-000000000001_lesson1.mp3'') =
      files (run example_env [PostTranscribe 0 example_upload, PostTranscribe 1 example_upload]
            (init_state Map.empty))
        (path_join UPLOAD_DIR ''00000000-0000-0000-0000-000000000001_lesson1.mp3'')"
    by blast
  with before have kept: "files (snd (delete_audio ''00000000-0000-0000-0000-000000000000''
          (run example_env [PostTranscribe 0 example_upload, PostTranscribe 1 example_upload]
            (init_state Map.empty))))
        (path_join UPLOAD_DIR ''00000000-0000-0000-0000-000000000001_lesson1.mp3'') = Some ''RIFF''"
    by (simp only:)
  from ne detail kept removed show ?thesis by blast
qed



end
